theory Spec2Isabelle
  imports Complex_Main
begin

section \<open>JavaScript numbers\<close>

text \<open>
  The pages compute with JavaScript numbers. They are modelled as exact reals extended by
  the three non-finite values of the language, so that a division by zero is visible in a
  result (it yields an infinity or NaN, it does not raise). Rounding is not modelled, and
  the two zeros of IEEE 754 are one value: a non-zero number divided by zero yields the
  infinity that carries the sign of the numerator. Every zero divisor that can occur in
  the functions below stems from an image dimension (an unsigned integer) and is the
  positive zero, for which this is what JavaScript computes.
\<close>

datatype jsnum = Fin real | PInf | NInf | NaN

fun is_fin :: "jsnum \<Rightarrow> bool" where
  "is_fin (Fin r) = True"
| "is_fin v = False"

text \<open>Truthiness of a number: zero and NaN are falsy.\<close>

fun truthy :: "jsnum \<Rightarrow> bool" where
  "truthy (Fin r) = (r \<noteq> 0)"
| "truthy NaN = False"
| "truthy v = True"

text \<open>\<^verbatim>\<open>a || b\<close> on numbers.\<close>

definition js_or :: "jsnum \<Rightarrow> jsnum \<Rightarrow> jsnum" where
  "js_or a b = (if truthy a then a else b)"

text \<open>\<^verbatim>\<open>a || b\<close> where \<open>a\<close> may be \<^verbatim>\<open>undefined\<close> (\<open>None\<close>), which is falsy.
  It also models \<^verbatim>\<open>d?.width || b\<close>, with \<open>map_option width d\<close> for \<^verbatim>\<open>d?.width\<close>.\<close>

definition or_default :: "jsnum option \<Rightarrow> jsnum \<Rightarrow> jsnum" where
  "or_default a b = (case a of None \<Rightarrow> b | Some v \<Rightarrow> js_or v b)"

text \<open>The arithmetic operators \<^verbatim>\<open>/\<close>, \<^verbatim>\<open>*\<close> and \<^verbatim>\<open>-\<close>.\<close>

fun js_div :: "jsnum \<Rightarrow> jsnum \<Rightarrow> jsnum" where
  "js_div NaN v = NaN"
| "js_div v NaN = NaN"
| "js_div (Fin a) (Fin b) =
     (if b \<noteq> 0 then Fin (a / b) else if a = 0 then NaN else if 0 < a then PInf else NInf)"
| "js_div (Fin a) v = Fin 0"
| "js_div PInf (Fin b) = (if 0 \<le> b then PInf else NInf)"
| "js_div NInf (Fin b) = (if 0 \<le> b then NInf else PInf)"
| "js_div v w = NaN"

fun js_mul :: "jsnum \<Rightarrow> jsnum \<Rightarrow> jsnum" where
  "js_mul NaN v = NaN"
| "js_mul v NaN = NaN"
| "js_mul (Fin a) (Fin b) = Fin (a * b)"
| "js_mul (Fin a) PInf = (if a = 0 then NaN else if 0 < a then PInf else NInf)"
| "js_mul (Fin a) NInf = (if a = 0 then NaN else if 0 < a then NInf else PInf)"
| "js_mul PInf (Fin b) = (if b = 0 then NaN else if 0 < b then PInf else NInf)"
| "js_mul NInf (Fin b) = (if b = 0 then NaN else if 0 < b then NInf else PInf)"
| "js_mul PInf PInf = PInf"
| "js_mul PInf NInf = NInf"
| "js_mul NInf PInf = NInf"
| "js_mul NInf NInf = PInf"

fun js_sub :: "jsnum \<Rightarrow> jsnum \<Rightarrow> jsnum" where
  "js_sub NaN v = NaN"
| "js_sub v NaN = NaN"
| "js_sub (Fin a) (Fin b) = Fin (a - b)"
| "js_sub (Fin a) PInf = NInf"
| "js_sub (Fin a) NInf = PInf"
| "js_sub PInf PInf = NaN"
| "js_sub PInf v = PInf"
| "js_sub NInf NInf = NaN"
| "js_sub NInf v = NInf"

text \<open>\<^verbatim>\<open>Math.min\<close> and \<^verbatim>\<open>Math.max\<close> of two arguments: NaN if either argument is NaN.\<close>

fun js_min :: "jsnum \<Rightarrow> jsnum \<Rightarrow> jsnum" where
  "js_min NaN v = NaN"
| "js_min v NaN = NaN"
| "js_min NInf v = NInf"
| "js_min v NInf = NInf"
| "js_min PInf v = v"
| "js_min v PInf = v"
| "js_min (Fin a) (Fin b) = Fin (min a b)"

fun js_max :: "jsnum \<Rightarrow> jsnum \<Rightarrow> jsnum" where
  "js_max NaN v = NaN"
| "js_max v NaN = NaN"
| "js_max PInf v = PInf"
| "js_max v PInf = PInf"
| "js_max NInf v = v"
| "js_max v NInf = v"
| "js_max (Fin a) (Fin b) = Fin (max a b)"

text \<open>\<^verbatim>\<open>Math.floor\<close>.\<close>

fun js_floor :: "jsnum \<Rightarrow> jsnum" where
  "js_floor (Fin a) = Fin (of_int \<lfloor>a\<rfloor>)"
| "js_floor v = v"

section \<open>The film-scanning page\<close>

subsection \<open>Data\<close>

text \<open>
  The interfaces of \<^verbatim>\<open>src/app/filmscanning/page.tsx\<close>. The fields \<^verbatim>\<open>x\<close>, \<^verbatim>\<open>y\<close> of
  \<^verbatim>\<open>Position\<close> and the fields of \<^verbatim>\<open>MagnifyParams\<close> carry a prefix, since record fields
  are constants of the theory.
\<close>

record Position =
  pos_x :: jsnum
  pos_y :: jsnum

record Dimensions =
  width :: jsnum
  height :: jsnum

record MagnifyParams =
  mp_x :: jsnum
  mp_y :: jsnum
  mp_scaleX :: jsnum
  mp_scaleY :: jsnum
  mp_sourceWidth :: jsnum
  mp_sourceHeight :: jsnum
  mp_centerX :: jsnum
  mp_centerY :: jsnum

text \<open>
  An \<^verbatim>\<open>HTMLImageElement\<close>: the identity of the object (the function compares two images
  with \<^verbatim>\<open>!==\<close>) and its \<^verbatim>\<open>width\<close> and \<^verbatim>\<open>height\<close>, which the DOM types as unsigned
  integers.
\<close>

record HTMLImageElement =
  img_handle :: nat
  img_width :: nat
  img_height :: nat

subsection \<open>The coordinate transform\<close>

text \<open>
  \<^verbatim>\<open>getMagnifyParams\<close>, binding for binding. An argument that may be \<^verbatim>\<open>null\<close> or
  \<^verbatim>\<open>undefined\<close> at run time is an option: the function tests \<^verbatim>\<open>!image\<close> and reads the
  dimensions with \<^verbatim>\<open>?.\<close>. The result \<open>None\<close> is the \<^verbatim>\<open>null\<close> it returns. \<open>rescale\<close> is the
  condition \<^verbatim>\<open>referenceImage && image !== referenceImage\<close>.
\<close>

definition getMagnifyParams ::
  "HTMLImageElement option \<Rightarrow> HTMLImageElement option \<Rightarrow> Position \<Rightarrow>
   Dimensions option \<Rightarrow> Dimensions option \<Rightarrow> jsnum option \<Rightarrow> MagnifyParams option" where
  "getMagnifyParams imageArg referenceImage magnifierPosition stageDimensions magDimensions zoomScale =
     (case imageArg of
        None \<Rightarrow> None
      | Some img \<Rightarrow>
         (let safeZoomScale = or_default zoomScale (Fin 0.5);
              safeStageWidth = or_default (map_option width stageDimensions) (Fin 400);
              safeStageHeight = or_default (map_option height stageDimensions) (Fin 300);
              safeMagWidth = or_default (map_option width magDimensions) (Fin 400);
              safeMagHeight = or_default (map_option height magDimensions) (Fin 400);
              referenceWidth = (case referenceImage of
                                  Some r \<Rightarrow> Fin (real (img_width r))
                                | None \<Rightarrow> Fin (real (img_width img)));
              referenceHeight = (case referenceImage of
                                   Some r \<Rightarrow> Fin (real (img_height r))
                                 | None \<Rightarrow> Fin (real (img_height img)));
              centerX = js_div (pos_x magnifierPosition) (js_div safeStageWidth referenceWidth);
              centerY = js_div (pos_y magnifierPosition) (js_div safeStageHeight referenceHeight);
              sourceWidth = js_div safeMagWidth safeZoomScale;
              sourceHeight = js_div safeMagHeight safeZoomScale;
              sourceX = js_max (Fin 0)
                          (js_min (js_sub centerX (js_div sourceWidth (Fin 2)))
                                  (js_sub referenceWidth sourceWidth));
              sourceY = js_max (Fin 0)
                          (js_min (js_sub centerY (js_div sourceHeight (Fin 2)))
                                  (js_sub referenceHeight sourceHeight));
              rescale = (case referenceImage of
                           Some r \<Rightarrow> img_handle img \<noteq> img_handle r
                         | None \<Rightarrow> False);
              scaleX = js_div (Fin (real (img_width img))) referenceWidth;
              scaleY = js_div (Fin (real (img_height img))) referenceHeight;
              finalSourceX = (if rescale then js_mul sourceX scaleX else sourceX);
              finalSourceY = (if rescale then js_mul sourceY scaleY else sourceY);
              scaleFactorX = (if rescale then js_div safeZoomScale scaleX else safeZoomScale);
              scaleFactorY = (if rescale then js_div safeZoomScale scaleY else safeZoomScale)
          in Some \<lparr> mp_x = finalSourceX, mp_y = finalSourceY,
                    mp_scaleX = scaleFactorX, mp_scaleY = scaleFactorY,
                    mp_sourceWidth = sourceWidth, mp_sourceHeight = sourceHeight,
                    mp_centerX = centerX, mp_centerY = centerY \<rparr>))"

subsection \<open>The resize recomputation\<close>

text \<open>
  \<^verbatim>\<open>updateDimensions\<close> reads the container behind \<^verbatim>\<open>stageRef\<close> (its \<^verbatim>\<open>offsetWidth\<close> is an
  integer) and the dimensions of the loaded image, and sets the stage dimensions. It does
  nothing while either is missing. The resize observer and the 150 ms debounce that call
  it are outside the model.
\<close>

record HTMLDivElement =
  offsetWidth :: int

record Home_state =
  home_stageRef :: "HTMLDivElement option"
  home_imageDimensions :: "Dimensions option"
  home_stageDimensions :: Dimensions

definition updateDimensions :: "Home_state \<Rightarrow> Home_state" where
  "updateDimensions s =
     (case (home_stageRef s, home_imageDimensions s) of
        (Some el, Some imageDimensions) \<Rightarrow>
          (let containerWidth = js_or (Fin (of_int (offsetWidth el))) (Fin 400);
               imgWidth = js_or (width imageDimensions) (Fin 600);
               imgHeight = js_or (height imageDimensions) (Fin 400);
               stageHeight = js_or (js_floor (js_div (js_mul containerWidth imgHeight) imgWidth))
                                   (Fin 300)
           in s\<lparr> home_stageDimensions := \<lparr> width = containerWidth, height = stageHeight \<rparr> \<rparr>)
      | _ \<Rightarrow> s)"

section \<open>The gallery page: AR session\<close>

subsection \<open>State and platform calls\<close>

text \<open>
  \<^verbatim>\<open>src/app/blog/page.tsx\<close>. A value that is handed to \<^verbatim>\<open>logDebug\<close> or thrown is one of
  three kinds, by what \<^verbatim>\<open>logDebug\<close> does with it: a string or a number, which \<^verbatim>\<open>String\<close>
  renders as the given text; an object that \<^verbatim>\<open>JSON.stringify\<close> serialises to the given
  text; and an object on which \<^verbatim>\<open>JSON.stringify\<close> throws (one with a cycle, or one that
  holds a \<^verbatim>\<open>BigInt\<close>).
\<close>

datatype js_value = Text string | Data string | Opaque

text \<open>
  An exception or a rejected promise is a value of \<open>js_error\<close>: the \<^verbatim>\<open>TypeError\<close> that the
  engine throws, or the value a request was rejected with or a constructor threw.
  \<open>error_value\<close> is the value the \<^verbatim>\<open>catch\<close> block receives; a \<^verbatim>\<open>TypeError\<close> has no
  enumerable property of its own and serialises to an empty object.
\<close>

datatype js_error = TypeError | Rejected js_value

definition error_value :: "js_error \<Rightarrow> js_value" where
  "error_value e = (case e of TypeError \<Rightarrow> Data ''{}'' | Rejected v \<Rightarrow> v)"

text \<open>
  The reference \<^verbatim>\<open>hitTestSourceRef\<close> is declared with the type
  \<^verbatim>\<open>XRHitTestSource | null | undefined\<close> and starts as \<^verbatim>\<open>undefined\<close>, so its content has
  three forms; the other references start as \<^verbatim>\<open>null\<close> and are options.
\<close>

datatype 'a nullish = Undefined | Null | Object 'a

text \<open>
  Sessions, elements, frame requests and hit-test sources are identified by natural
  numbers. What the page asks of the browser is recorded, in order, as a list of
  \<open>platform_call\<close>. What such a call does inside the browser is not part of the
  repository: a call on an existing object is taken to return.
\<close>

datatype platform_call =
    StopCameraTracks
  | SessionEnd nat
  | CancelAnimationFrame nat
  | AppendChild nat nat
  | RemoveChild nat nat
  | HitTestSourceCancel nat
  | AddSelectListener nat
  | SetTimeout nat
  | SessionRequestAnimationFrame nat
  | AddEndListener nat

text \<open>
  \<^verbatim>\<open>logDebug\<close> (lines 42 to 65) first writes its arguments to the console. When the debug
  panel is not mounted it returns. Otherwise it renders each argument, an object with
  \<^verbatim>\<open>JSON.stringify\<close> and anything else with \<^verbatim>\<open>String\<close>, joins the texts with a space,
  appends the line to the panel and drops lines from the front while more than 200
  remain. \<^verbatim>\<open>JSON.stringify\<close> throws a \<^verbatim>\<open>TypeError\<close> on an object it cannot serialise, and
  then so does \<^verbatim>\<open>logDebug\<close>, after the console has been written. The console is recorded
  as the list of its lines. The function is used by the page and by the listeners of a
  session, hence the extensible record.
\<close>

record Logs =
  console :: "string list"
  debugPanel :: "string list option"

fun render :: "js_value \<Rightarrow> string option" where
  "render (Text t) = Some t"
| "render (Data json) = Some json"
| "render Opaque = None"

fun render_all :: "js_value list \<Rightarrow> string list option" where
  "render_all [] = Some []"
| "render_all (a # as) =
     (case render a of
        None \<Rightarrow> None
      | Some t \<Rightarrow> (case render_all as of None \<Rightarrow> None | Some ts \<Rightarrow> Some (t # ts)))"

fun console_text :: "js_value \<Rightarrow> string" where
  "console_text (Text t) = t"
| "console_text (Data json) = json"
| "console_text Opaque = ''[object]''"

fun join_space :: "string list \<Rightarrow> string" where
  "join_space [] = []"
| "join_space [t] = t"
| "join_space (t # u # ts) = t @ '' '' @ join_space (u # ts)"

definition logDebug :: "js_value list \<Rightarrow> 'a Logs_scheme \<Rightarrow> js_error + 'a Logs_scheme" where
  "logDebug args s =
     (let s1 = s\<lparr> console := console s @ [join_space (map console_text args)] \<rparr>
      in case debugPanel s1 of
           None \<Rightarrow> Inr s1
         | Some panel \<Rightarrow>
            (case render_all args of
               None \<Rightarrow> Inl TypeError
             | Some texts \<Rightarrow>
                 Inr (s1\<lparr> debugPanel :=
                            Some (drop (length (panel @ [join_space texts]) - 200)
                                    (panel @ [join_space texts])) \<rparr>)))"

text \<open>
  A call of \<^verbatim>\<open>logDebug\<close> whose arguments all render cannot throw: it is \<open>logDebug_text\<close>
  of the line they are joined to (lemma \<open>logDebug_rendered\<close> below). The model uses
  \<open>logDebug_text\<close> for the calls with constant text, where the line is that text; the
  non-ASCII marks of the source text are left out (an arrow is written \<^verbatim>\<open>->\<close>). The
  listeners of a session pass a number (\<^verbatim>\<open>results.length\<close>) and the transform of a pose,
  an object of the platform without a property of its own, after the constant text;
  these render, and their text is left out of the line.
\<close>

definition logDebug_text :: "string \<Rightarrow> 'a Logs_scheme \<Rightarrow> 'a Logs_scheme" where
  "logDebug_text line s =
     (let s1 = s\<lparr> console := console s @ [line] \<rparr>
      in case debugPanel s1 of
           None \<Rightarrow> s1
         | Some panel \<Rightarrow>
             s1\<lparr> debugPanel := Some (drop (length (panel @ [line]) - 200) (panel @ [line])) \<rparr>)"

text \<open>
  The React state and the references that launch and teardown use. \<open>parentElement\<close> is
  the part of the DOM they touch: the parent of each element, if it has one.
\<close>

record Gallery_state = Logs +
  isARSupported :: bool
  arSessionActive :: bool
  canvasRef :: "nat option"
  xrSessionRef :: "nat option"
  frameRef :: "nat option"
  hitTestSourceRef :: "nat nullish"
  parentElement :: "nat \<rightharpoonup> nat"
  calls :: "platform_call list"

text \<open>Statements that may throw, in sequence: the first error ends the sequence.\<close>

definition and_then :: "js_error + 's \<Rightarrow> ('s \<Rightarrow> js_error + 't) \<Rightarrow> js_error + 't" where
  "and_then r f = (case r of Inl e \<Rightarrow> Inl e | Inr s \<Rightarrow> f s)"

definition call :: "platform_call \<Rightarrow> Gallery_state \<Rightarrow> Gallery_state" where
  "call c s = s\<lparr> calls := calls s @ [c] \<rparr>"

text \<open>
  Method calls of the teardown. A call on a receiver that is \<^verbatim>\<open>null\<close> or \<^verbatim>\<open>undefined\<close>
  throws a \<^verbatim>\<open>TypeError\<close>; \<^verbatim>\<open>removeChild\<close> detaches the child.
\<close>

definition session_end :: "nat option \<Rightarrow> Gallery_state \<Rightarrow> js_error + Gallery_state" where
  "session_end receiver s =
     (case receiver of None \<Rightarrow> Inl TypeError | Some h \<Rightarrow> Inr (call (SessionEnd h) s))"

definition removeChild :: "nat option \<Rightarrow> nat option \<Rightarrow> Gallery_state \<Rightarrow> js_error + Gallery_state" where
  "removeChild receiver child s =
     (case receiver of
        None \<Rightarrow> Inl TypeError
      | Some p \<Rightarrow>
         (case child of
            None \<Rightarrow> Inl TypeError
          | Some c \<Rightarrow> Inr (call (RemoveChild p c) (s\<lparr> parentElement := (parentElement s)(c := None) \<rparr>))))"

definition hit_test_source_cancel :: "nat nullish \<Rightarrow> Gallery_state \<Rightarrow> js_error + Gallery_state" where
  "hit_test_source_cancel receiver s =
     (case receiver of Object h \<Rightarrow> Inr (call (HitTestSourceCancel h) s) | _ \<Rightarrow> Inl TypeError)"

subsection \<open>Teardown\<close>

text \<open>
  \<^verbatim>\<open>endARSession\<close>: its four guarded blocks in the order of the source, then
  \<^verbatim>\<open>setArSessionActive(false)\<close>. \<open>canvas_parentElement\<close> is
  \<^verbatim>\<open>canvasRef.current?.parentElement\<close>.
\<close>

definition canvas_parentElement :: "Gallery_state \<Rightarrow> nat option" where
  "canvas_parentElement s = (case canvasRef s of None \<Rightarrow> None | Some c \<Rightarrow> parentElement s c)"

definition teardown_session :: "Gallery_state \<Rightarrow> js_error + Gallery_state" where
  "teardown_session s =
     (if xrSessionRef s \<noteq> None
      then and_then (session_end (xrSessionRef s) (logDebug_text ''ending XRSession'' s))
             (\<lambda>s. Inr (s\<lparr> xrSessionRef := None \<rparr>))
      else Inr s)"

definition teardown_frame :: "Gallery_state \<Rightarrow> js_error + Gallery_state" where
  "teardown_frame s =
     (case frameRef s of
        Some n \<Rightarrow> Inr ((call (CancelAnimationFrame n) s)\<lparr> frameRef := None \<rparr>)
      | None \<Rightarrow> Inr s)"

definition teardown_canvas :: "Gallery_state \<Rightarrow> js_error + Gallery_state" where
  "teardown_canvas s =
     (if canvas_parentElement s \<noteq> None
      then and_then (removeChild (canvas_parentElement s) (canvasRef s) s)
             (\<lambda>s. Inr (s\<lparr> canvasRef := None \<rparr>))
      else Inr s)"

definition teardown_hit_test :: "Gallery_state \<Rightarrow> js_error + Gallery_state" where
  "teardown_hit_test s =
     (if (case hitTestSourceRef s of Object h \<Rightarrow> True | _ \<Rightarrow> False)
      then and_then (hit_test_source_cancel (hitTestSourceRef s) s)
             (\<lambda>s. Inr (s\<lparr> hitTestSourceRef := Null \<rparr>))
      else Inr s)"

definition endARSession :: "Gallery_state \<Rightarrow> js_error + Gallery_state" where
  "endARSession s =
     and_then (teardown_session s) (\<lambda>s.
     and_then (teardown_frame s) (\<lambda>s.
     and_then (teardown_canvas s) (\<lambda>s.
     and_then (teardown_hit_test s) (\<lambda>s.
     Inr (s\<lparr> arSessionActive := False \<rparr>)))))"

subsection \<open>Launch\<close>

text \<open>
  \<^verbatim>\<open>launchAR\<close> awaits a sequence of requests to the browser. \<open>XR_platform\<close> holds the
  answer to each of them: an error where the request is rejected or the constructor
  throws, \<open>None\<close> for \<^verbatim>\<open>getContext\<close> where it returns \<^verbatim>\<open>null\<close>, \<open>None\<close> for
  \<^verbatim>\<open>requestHitTestSource\<close> where the session has no such method, and the identities of
  the two elements that \<^verbatim>\<open>document.createElement\<close> returns.
\<close>

record XR_platform =
  env_getUserMedia :: "js_error option"
  env_requestSession :: "js_error + nat"
  env_createDiag :: nat
  env_createCanvas :: nat
  env_getContext :: "nat option"
  env_makeXRCompatible :: "js_error option"
  env_newXRWebGLLayer :: "js_error option"
  env_updateRenderState :: "js_error option"
  env_newWebGLRenderer :: "js_error option"
  env_requestLocalSpace :: "js_error + nat"
  env_requestViewerSpace :: "js_error + nat"
  env_requestHitTestSource :: "(js_error + nat) option"

definition document_body :: nat where
  "document_body = 0"

definition appendChild :: "nat \<Rightarrow> nat \<Rightarrow> Gallery_state \<Rightarrow> Gallery_state" where
  "appendChild p c s = call (AppendChild p c) (s\<lparr> parentElement := (parentElement s)(c \<mapsto> p) \<rparr>)"

text \<open>
  The body of the \<^verbatim>\<open>try\<close> block, one function per numbered step of the source. A step
  that fails returns the error together with the state reached, which is the state the
  \<^verbatim>\<open>catch\<close> block starts from.
\<close>

definition try_then ::
  "(js_error \<times> 's) + 's \<Rightarrow> ('s \<Rightarrow> (js_error \<times> 's) + 's) \<Rightarrow> (js_error \<times> 's) + 's" where
  "try_then r f = (case r of Inl e \<Rightarrow> Inl e | Inr s \<Rightarrow> f s)"

definition step_camera :: "XR_platform \<Rightarrow> Gallery_state \<Rightarrow> (js_error \<times> Gallery_state) + Gallery_state" where
  "step_camera env s =
     (let s1 = logDebug_text ''1) requesting camera permission'' s
      in case env_getUserMedia env of
           Some e \<Rightarrow> Inl (e, s1)
         | None \<Rightarrow> Inr (logDebug_text ''-> camera granted'' (call StopCameraTracks s1)))"

definition step_diag :: "XR_platform \<Rightarrow> Gallery_state \<Rightarrow> (js_error \<times> Gallery_state) + Gallery_state" where
  "step_diag env s =
     Inr (logDebug_text ''3) diag overlay added'' (appendChild document_body (env_createDiag env) s))"

definition step_canvas :: "XR_platform \<Rightarrow> Gallery_state \<Rightarrow> (js_error \<times> Gallery_state) + Gallery_state" where
  "step_canvas env s =
     (let canvas = env_createCanvas env;
          s1 = logDebug_text ''4) canvas added''
                 ((appendChild document_body canvas s)\<lparr> canvasRef := Some canvas \<rparr>)
      in case env_getContext env of
           None \<Rightarrow> Inl (TypeError, s1)
         | Some gl \<Rightarrow>
            (case env_makeXRCompatible env of
               Some e \<Rightarrow> Inl (e, s1)
             | None \<Rightarrow> Inr (logDebug_text ''-> gl.makeXRCompatible()'' s1)))"

definition step_layer :: "XR_platform \<Rightarrow> Gallery_state \<Rightarrow> (js_error \<times> Gallery_state) + Gallery_state" where
  "step_layer env s =
     (case env_newXRWebGLLayer env of
        Some e \<Rightarrow> Inl (e, s)
      | None \<Rightarrow>
         (case env_updateRenderState env of
            Some e \<Rightarrow> Inl (e, s)
          | None \<Rightarrow> Inr (logDebug_text ''5) XRWebGLLayer bound'' s)))"

definition step_renderer :: "XR_platform \<Rightarrow> Gallery_state \<Rightarrow> (js_error \<times> Gallery_state) + Gallery_state" where
  "step_renderer env s =
     (case env_newWebGLRenderer env of
        Some e \<Rightarrow> Inl (e, s)
      | None \<Rightarrow> Inr (logDebug_text ''6) Three.js renderer ready'' s))"

definition step_reference_spaces :: "XR_platform \<Rightarrow> Gallery_state \<Rightarrow> (js_error \<times> Gallery_state) + Gallery_state" where
  "step_reference_spaces env s =
     (case env_requestLocalSpace env of
        Inl e \<Rightarrow> Inl (e, s)
      | Inr localRef \<Rightarrow>
         (case env_requestViewerSpace env of
            Inl e \<Rightarrow> Inl (e, s)
          | Inr viewerRef \<Rightarrow> Inr (logDebug_text ''7) refe rence spaces OK'' s)))"

definition step_hit_test :: "XR_platform \<Rightarrow> Gallery_state \<Rightarrow> (js_error \<times> Gallery_state) + Gallery_state" where
  "step_hit_test env s =
     (case env_requestHitTestSource env of
        None \<Rightarrow> Inl (TypeError, s)
      | Some (Inl e) \<Rightarrow> Inl (e, s)
      | Some (Inr hitSource) \<Rightarrow>
          Inr (logDebug_text ''8) hit-test source OK'' (s\<lparr> hitTestSourceRef := Object hitSource \<rparr>)))"

text \<open>
  Steps 10 to 13 and the \<^verbatim>\<open>end\<close> listener: the scene is built and the listeners, the
  5000 ms timer and the first frame request are registered. The texture load, the
  listeners and the render loop run later, from the event loop.
\<close>

definition step_scene :: "nat \<Rightarrow> Gallery_state \<Rightarrow> (js_error \<times> Gallery_state) + Gallery_state" where
  "step_scene session s =
     Inr (call (AddEndListener session)
           (call (SessionRequestAnimationFrame session)
             (call (SetTimeout 5000)
               (call (AddSelectListener session)
                 (logDebug_text ''9) pictureGroup created'' s)))))"

definition setup_session :: "XR_platform \<Rightarrow> nat \<Rightarrow> Gallery_state \<Rightarrow> (js_error \<times> Gallery_state) + Gallery_state" where
  "setup_session env session s =
     try_then (step_diag env s) (\<lambda>s.
     try_then (step_canvas env s) (\<lambda>s.
     try_then (step_layer env s) (\<lambda>s.
     try_then (step_renderer env s) (\<lambda>s.
     try_then (step_reference_spaces env s) (\<lambda>s.
     try_then (step_hit_test env s) (\<lambda>s.
     step_scene session s))))))"

definition launch_try :: "XR_platform \<Rightarrow> Gallery_state \<Rightarrow> (js_error \<times> Gallery_state) + Gallery_state" where
  "launch_try env s =
     try_then (step_camera env s) (\<lambda>s.
       let s1 = logDebug_text ''2) requesting XRSession'' s
       in case env_requestSession env of
            Inl e \<Rightarrow> Inl (e, s1)
          | Inr session \<Rightarrow>
              setup_session env session
                (logDebug_text ''-> XRSession started''
                   (s1\<lparr> xrSessionRef := Some session, arSessionActive := True \<rparr>)))"

text \<open>
  \<^verbatim>\<open>launchAR\<close> itself: the log is cleared, an unsupported browser returns at once, and the
  \<^verbatim>\<open>catch\<close> block logs the error and calls \<^verbatim>\<open>endARSession\<close>. The result \<open>Inl\<close> is the
  promise of \<^verbatim>\<open>launchAR\<close> rejected, which is what the click handler of the host would
  see; \<open>Inr\<close> is the promise fulfilled. The arguments \<^verbatim>\<open>image\<close> and \<^verbatim>\<open>size\<close> are an entry
  of the gallery and one of its sizes, records of strings and numbers, which
  \<^verbatim>\<open>JSON.stringify\<close> serialises; they enter the first log line, as the text \<open>request\<close> of
  \<^verbatim>\<open>{ image, size }\<close>, and the scene. The \<^verbatim>\<open>catch\<close> block hands the error it caught to
  \<^verbatim>\<open>logDebug\<close>, which can throw on it, and calls \<^verbatim>\<open>endARSession\<close> after that.
\<close>

definition launch_start :: "string \<Rightarrow> Gallery_state \<Rightarrow> Gallery_state" where
  "launch_start request s =
     logDebug_text (join_space [''-> launchAR()'', request])
       (s\<lparr> debugPanel := map_option (\<lambda>panel. []) (debugPanel s) \<rparr>)"

definition launchAR :: "XR_platform \<Rightarrow> string \<Rightarrow> Gallery_state \<Rightarrow> js_error + Gallery_state" where
  "launchAR env request s =
     (let s0 = launch_start request s
      in if \<not> isARSupported s0 then Inr (logDebug_text ''<- AR not supported'' s0)
         else (case launch_try env s0 of
                 Inr s1 \<Rightarrow> Inr s1
               | Inl (err, s1) \<Rightarrow>
                   and_then (logDebug [Text ''launchAR error'', error_value err] s1)
                     endARSession))"

subsection \<open>Placement\<close>

text \<open>
  The variables that the \<^verbatim>\<open>select\<close> listener and the fallback timer of one session close
  over: the flag \<^verbatim>\<open>placed\<close>, the pose of \<^verbatim>\<open>pictureGroup\<close>, the camera position, the plane
  height \<^verbatim>\<open>h\<close> and the diagnostic text. The orientation of the group is either copied
  from a pose or the result of \<^verbatim>\<open>lookAt\<close>, which Three.js computes from the position of
  the group and the target; it is kept symbolic. An exception thrown by a listener is
  reported by the event loop and recorded in \<open>uncaught\<close>; the assignments made before it
  stay.
\<close>

record Vector3 =
  vec_x :: jsnum
  vec_y :: jsnum
  vec_z :: jsnum

record Quaternion =
  quat_x :: jsnum
  quat_y :: jsnum
  quat_z :: jsnum
  quat_w :: jsnum

datatype rotation = Copied Quaternion | LookAt Vector3 Vector3

record XRRigidTransform =
  xr_position :: Vector3
  xr_orientation :: Quaternion

record Size =
  size_label :: string
  price :: jsnum
  widthCm :: jsnum
  heightCm :: jsnum

record AR_session = Logs +
  placed :: bool
  pictureGroup_position :: Vector3
  pictureGroup_quaternion :: rotation
  camera_position :: Vector3
  plane_h :: jsnum
  diag_innerText :: string
  uncaught :: "js_error list"

text \<open>
  The session as step 12 finds it: the group at the origin with the identity rotation
  (the Three.js defaults), the camera at \<open>(0, 1.6, 3)\<close>, \<^verbatim>\<open>h = size.heightCm * 0.01\<close>.
\<close>

definition new_session :: "Size \<Rightarrow> AR_session" where
  "new_session sz =
     \<lparr> console = [], debugPanel = None, placed = False,
       pictureGroup_position = \<lparr> vec_x = Fin 0, vec_y = Fin 0, vec_z = Fin 0 \<rparr>,
       pictureGroup_quaternion =
         Copied \<lparr> quat_x = Fin 0, quat_y = Fin 0, quat_z = Fin 0, quat_w = Fin 1 \<rparr>,
       camera_position = \<lparr> vec_x = Fin 0, vec_y = Fin 1.6, vec_z = Fin 3 \<rparr>,
       plane_h = js_mul (heightCm sz) (Fin 0.01),
       diag_innerText = ''AR initializing...'', uncaught = [] \<rparr>"

text \<open>
  The \<^verbatim>\<open>select\<close> listener. Its argument is the list of hit-test results of the frame,
  each given by what \<^verbatim>\<open>getPose(localRef)\<close> returns for it: the transform of the pose, or
  \<open>None\<close> for \<^verbatim>\<open>null\<close>, in which case reading \<^verbatim>\<open>pose.transform\<close> throws.
\<close>

definition on_select :: "XRRigidTransform option list \<Rightarrow> AR_session \<Rightarrow> AR_session" where
  "on_select results st =
     (let st1 = logDebug_text ''select fired'' st;
          st2 = logDebug_text ''hit-test results:'' st1
      in if results \<noteq> [] \<and> \<not> placed st2
         then (let st3 = st2\<lparr> placed := True \<rparr>
               in case hd results of
                    None \<Rightarrow> st3\<lparr> uncaught := uncaught st3 @ [TypeError] \<rparr>
                  | Some transform \<Rightarrow>
                      (logDebug_text ''-> placing at'' st3)
                        \<lparr> pictureGroup_position := xr_position transform,
                          pictureGroup_quaternion := Copied (xr_orientation transform),
                          diag_innerText := ''Placed!'' \<rparr>)
         else st2)"

text \<open>The callback of the 5000 ms timer.\<close>

definition on_fallback :: "AR_session \<Rightarrow> AR_session" where
  "on_fallback st =
     (if \<not> placed st
      then (let st1 = logDebug_text ''fallback placement'' (st\<lparr> placed := True \<rparr>);
                eyeY = vec_y (camera_position st1);
                p = \<lparr> vec_x = Fin 0, vec_y = js_sub eyeY (js_div (plane_h st1) (Fin 2)),
                      vec_z = Fin (- 2) \<rparr>
            in st1\<lparr> pictureGroup_position := p,
                    pictureGroup_quaternion := LookAt p (camera_position st1),
                    diag_innerText := ''Fallback placed'' \<rparr>)
      else st)"

text \<open>
  The event loop runs one listener at a time, so what happens in a session is a sequence
  of events; the timer firing is one of them, and what precedes it in the sequence is
  what happened before the 5000 ms elapsed. The frame callback writes the matrices of the
  camera and the texture callback adds the mesh to the group; neither assigns one of the
  variables above, so they are no events of the model.
\<close>

datatype XR_event = Select "XRRigidTransform option list" | FallbackTimeout

fun handle :: "XR_event \<Rightarrow> AR_session \<Rightarrow> AR_session" where
  "handle (Select results) st = on_select results st"
| "handle FallbackTimeout st = on_fallback st"

fun run :: "XR_event list \<Rightarrow> AR_session \<Rightarrow> AR_session" where
  "run [] st = st"
| "run (e # es) st = run es (handle e st)"

section \<open>Notions used to state the properties\<close>

subsection \<open>Coordinate transform\<close>

text \<open>The reference dimensions the transform uses: those of the reference image when
  there is one, those of the magnified image otherwise.\<close>

definition referenceWidth :: "HTMLImageElement \<Rightarrow> HTMLImageElement option \<Rightarrow> nat" where
  "referenceWidth img referenceImage =
     (case referenceImage of Some r \<Rightarrow> img_width r | None \<Rightarrow> img_width img)"

definition referenceHeight :: "HTMLImageElement \<Rightarrow> HTMLImageElement option \<Rightarrow> nat" where
  "referenceHeight img referenceImage =
     (case referenceImage of Some r \<Rightarrow> img_height r | None \<Rightarrow> img_height img)"

text \<open>
  The sampled rectangle \<open>[x, x + sourceWidth] \<times> [y, y + sourceHeight]\<close> of a result lies
  within \<open>[0, rw] \<times> [0, rh]\<close>: all four numbers are finite and both ends of each side are
  in range.
\<close>

definition rect_within :: "MagnifyParams \<Rightarrow> nat \<Rightarrow> nat \<Rightarrow> bool" where
  "rect_within p rw rh =
     (case (mp_x p, mp_sourceWidth p, mp_y p, mp_sourceHeight p) of
        (Fin x, Fin sw, Fin y, Fin sh) \<Rightarrow>
           0 \<le> x \<and> x \<le> real rw \<and> 0 \<le> x + sw \<and> x + sw \<le> real rw \<and>
           0 \<le> y \<and> y \<le> real rh \<and> 0 \<le> y + sh \<and> y + sh \<le> real rh
      | _ \<Rightarrow> False)"

text \<open>
  Inputs: a number that is finite and positive; an optional input that is absent or
  finite (or positive); the case in which the function does not rescale.
\<close>

fun positive :: "jsnum \<Rightarrow> bool" where
  "positive (Fin r) = (0 < r)"
| "positive v = False"

fun nonzero_fin :: "jsnum \<Rightarrow> bool" where
  "nonzero_fin (Fin r) = (r \<noteq> 0)"
| "nonzero_fin v = False"

definition finite_opt :: "jsnum option \<Rightarrow> bool" where
  "finite_opt z = (case z of None \<Rightarrow> True | Some v \<Rightarrow> is_fin v)"

definition finite_dims :: "Dimensions option \<Rightarrow> bool" where
  "finite_dims d = (case d of None \<Rightarrow> True | Some v \<Rightarrow> is_fin (width v) \<and> is_fin (height v))"

definition opt_positive :: "jsnum option \<Rightarrow> bool" where
  "opt_positive z = (case z of None \<Rightarrow> True | Some v \<Rightarrow> positive v)"

definition dims_positive :: "Dimensions option \<Rightarrow> bool" where
  "dims_positive d = (case d of None \<Rightarrow> True | Some v \<Rightarrow> positive (width v) \<and> positive (height v))"

definition no_rescale :: "HTMLImageElement \<Rightarrow> HTMLImageElement option \<Rightarrow> bool" where
  "no_rescale img referenceImage =
     (case referenceImage of None \<Rightarrow> True | Some r \<Rightarrow> img_handle img = img_handle r)"

text \<open>Two image values with the same identity are the same object, so they agree in size.\<close>

definition same_object_same_size :: "HTMLImageElement \<Rightarrow> HTMLImageElement \<Rightarrow> bool" where
  "same_object_same_size a b = (img_handle a = img_handle b \<longrightarrow> a = b)"

text \<open>Every field of a result is finite.\<close>

definition fin_params :: "MagnifyParams \<Rightarrow> bool" where
  "fin_params p = (is_fin (mp_x p) \<and> is_fin (mp_y p) \<and> is_fin (mp_scaleX p) \<and> is_fin (mp_scaleY p)
     \<and> is_fin (mp_sourceWidth p) \<and> is_fin (mp_sourceHeight p)
     \<and> is_fin (mp_centerX p) \<and> is_fin (mp_centerY p))"

text \<open>
  The divisor of each division that \<^verbatim>\<open>getMagnifyParams\<close> evaluates, in the order of the
  source, with the same bindings: lines 134 and 135 (two divisions each), 138 and 139,
  142 and 143, and, when the function rescales, lines 152, 153, 156 and 157.
\<close>

definition magnify_divisors ::
  "HTMLImageElement \<Rightarrow> HTMLImageElement option \<Rightarrow>
   Dimensions option \<Rightarrow> Dimensions option \<Rightarrow> jsnum option \<Rightarrow> jsnum list" where
  "magnify_divisors img referenceImage stageDimensions magDimensions zoomScale =
     (let safeZoomScale = or_default zoomScale (Fin 0.5);
          safeStageWidth = or_default (map_option width stageDimensions) (Fin 400);
          safeStageHeight = or_default (map_option height stageDimensions) (Fin 300);
          referenceWidth = (case referenceImage of
                              Some r \<Rightarrow> Fin (real (img_width r))
                            | None \<Rightarrow> Fin (real (img_width img)));
          referenceHeight = (case referenceImage of
                               Some r \<Rightarrow> Fin (real (img_height r))
                             | None \<Rightarrow> Fin (real (img_height img)));
          rescale = (case referenceImage of
                       Some r \<Rightarrow> img_handle img \<noteq> img_handle r
                     | None \<Rightarrow> False);
          scaleX = js_div (Fin (real (img_width img))) referenceWidth;
          scaleY = js_div (Fin (real (img_height img))) referenceHeight
      in [referenceWidth, js_div safeStageWidth referenceWidth,
          referenceHeight, js_div safeStageHeight referenceHeight,
          safeZoomScale, safeZoomScale, Fin 2, Fin 2]
         @ (if rescale then [referenceWidth, referenceHeight, scaleX, scaleY] else []))"

text \<open>The clamp of lines 142 and 143 on reals: centre \<open>c\<close>, sampled size \<open>s\<close>, reference
  size \<open>r\<close>.\<close>

definition clampOrigin :: "real \<Rightarrow> real \<Rightarrow> real \<Rightarrow> real" where
  "clampOrigin c s r = max 0 (min (c - s / 2) (r - s))"

text \<open>The real value of \<open>v || d\<close> for a default \<open>d\<close>: the value of \<open>v\<close> where it is
  present, finite and not zero, the default otherwise.\<close>

definition effective :: "real \<Rightarrow> jsnum option \<Rightarrow> real" where
  "effective d v = (case v of Some (Fin r) \<Rightarrow> (if r = 0 then d else r) | _ \<Rightarrow> d)"

text \<open>The factors \<open>scaleX\<close> and \<open>scaleY\<close> of lines 153 and 154 that take reference
  coordinates to coordinates of the magnified image; 1 where the function does not
  rescale.\<close>

definition rescale_x :: "HTMLImageElement \<Rightarrow> HTMLImageElement option \<Rightarrow> real" where
  "rescale_x img referenceImage =
     (if no_rescale img referenceImage then 1
      else real (img_width img) / real (referenceWidth img referenceImage))"

definition rescale_y :: "HTMLImageElement \<Rightarrow> HTMLImageElement option \<Rightarrow> real" where
  "rescale_y img referenceImage =
     (if no_rescale img referenceImage then 1
      else real (img_height img) / real (referenceHeight img referenceImage))"

text \<open>Images used as examples.\<close>

definition film_scan :: HTMLImageElement where
  "film_scan = \<lparr> img_handle = 1, img_width = 2000, img_height = 1500 \<rparr>"

definition film_scan_large :: HTMLImageElement where
  "film_scan_large = \<lparr> img_handle = 2, img_width = 4000, img_height = 3000 \<rparr>"

definition film_scan_small :: HTMLImageElement where
  "film_scan_small = \<lparr> img_handle = 3, img_width = 1000, img_height = 750 \<rparr>"

subsection \<open>Teardown and launch\<close>

text \<open>
  The canvas that \<^verbatim>\<open>canvasRef\<close> holds, if any, has a parent; a reference holds no hit-test
  source.
\<close>

definition canvas_attached :: "Gallery_state \<Rightarrow> bool" where
  "canvas_attached s = (case canvasRef s of None \<Rightarrow> True | Some c \<Rightarrow> parentElement s c \<noteq> None)"

definition holds_no_source :: "nat nullish \<Rightarrow> bool" where
  "holds_no_source r = (case r of Object h \<Rightarrow> False | _ \<Rightarrow> True)"

text \<open>The state each block of the teardown leaves.\<close>

definition after_session :: "Gallery_state \<Rightarrow> Gallery_state" where
  "after_session s =
     (case xrSessionRef s of
        None \<Rightarrow> s
      | Some h \<Rightarrow> (call (SessionEnd h) (logDebug_text ''ending XRSession'' s))\<lparr> xrSessionRef := None \<rparr>)"

definition after_frame :: "Gallery_state \<Rightarrow> Gallery_state" where
  "after_frame s =
     (case frameRef s of
        None \<Rightarrow> s
      | Some n \<Rightarrow> (call (CancelAnimationFrame n) s)\<lparr> frameRef := None \<rparr>)"

definition after_canvas :: "Gallery_state \<Rightarrow> Gallery_state" where
  "after_canvas s =
     (case canvasRef s of
        None \<Rightarrow> s
      | Some c \<Rightarrow>
         (case parentElement s c of
            None \<Rightarrow> s
          | Some p \<Rightarrow> (call (RemoveChild p c) (s\<lparr> parentElement := (parentElement s)(c := None) \<rparr>))
                        \<lparr> canvasRef := None \<rparr>))"

definition after_hit_test :: "Gallery_state \<Rightarrow> Gallery_state" where
  "after_hit_test s =
     (case hitTestSourceRef s of
        Object h \<Rightarrow> (call (HitTestSourceCancel h) s)\<lparr> hitTestSourceRef := Null \<rparr>
      | _ \<Rightarrow> s)"

text \<open>
  The errors a browser holds ready for the setup; an error whose value \<^verbatim>\<open>logDebug\<close> can
  render; the error of a step is a \<^verbatim>\<open>TypeError\<close> or one of the browser's. Some step of the
  setup fails; a property holds of the state a step returns, with or without an error;
  the invariant of the setup once the session is open.
\<close>

definition setup_errors :: "XR_platform \<Rightarrow> js_error list" where
  "setup_errors env =
     (case env_getUserMedia env of Some e \<Rightarrow> [e] | None \<Rightarrow> [])
     @ (case env_requestSession env of Inl e \<Rightarrow> [e] | Inr h \<Rightarrow> [])
     @ (case env_makeXRCompatible env of Some e \<Rightarrow> [e] | None \<Rightarrow> [])
     @ (case env_newXRWebGLLayer env of Some e \<Rightarrow> [e] | None \<Rightarrow> [])
     @ (case env_updateRenderState env of Some e \<Rightarrow> [e] | None \<Rightarrow> [])
     @ (case env_newWebGLRenderer env of Some e \<Rightarrow> [e] | None \<Rightarrow> [])
     @ (case env_requestLocalSpace env of Inl e \<Rightarrow> [e] | Inr h \<Rightarrow> [])
     @ (case env_requestViewerSpace env of Inl e \<Rightarrow> [e] | Inr h \<Rightarrow> [])
     @ (case env_requestHitTestSource env of Some (Inl e) \<Rightarrow> [e] | _ \<Rightarrow> [])"

definition serialisable :: "js_error \<Rightarrow> bool" where
  "serialisable e = (render (error_value e) \<noteq> None)"

definition raised_by :: "XR_platform \<Rightarrow> (js_error \<times> Gallery_state) + Gallery_state \<Rightarrow> bool" where
  "raised_by env r =
     (case r of Inl (e, t) \<Rightarrow> e = TypeError \<or> e \<in> set (setup_errors env) | Inr t \<Rightarrow> True)"

definition setup_fails :: "XR_platform \<Rightarrow> bool" where
  "setup_fails env =
     (env_getUserMedia env \<noteq> None \<or> isl (env_requestSession env)
      \<or> env_getContext env = None \<or> env_makeXRCompatible env \<noteq> None
      \<or> env_newXRWebGLLayer env \<noteq> None \<or> env_updateRenderState env \<noteq> None
      \<or> env_newWebGLRenderer env \<noteq> None
      \<or> isl (env_requestLocalSpace env) \<or> isl (env_requestViewerSpace env)
      \<or> (case env_requestHitTestSource env of None \<Rightarrow> True | Some r \<Rightarrow> isl r))"

definition result_all ::
  "(Gallery_state \<Rightarrow> bool) \<Rightarrow> (js_error \<times> Gallery_state) + Gallery_state \<Rightarrow> bool" where
  "result_all P r = (case r of Inl (e, t) \<Rightarrow> P t | Inr t \<Rightarrow> P t)"

definition launch_inv :: "nat \<Rightarrow> Gallery_state \<Rightarrow> bool" where
  "launch_inv session t = (canvas_attached t \<and> xrSessionRef t = Some session)"

text \<open>
  Example states: a session whose canvas has been detached from the document, one whose
  canvas is attached, the page before any launch, a browser that rejects the request for
  a hit-test source with an exception that serialises to an empty object, and one that
  rejects the camera request with a value that cannot be serialised.
\<close>

definition detached_canvas_state :: Gallery_state where
  "detached_canvas_state =
     \<lparr> console = [], debugPanel = None, isARSupported = True, arSessionActive = True,
       canvasRef = Some 7, xrSessionRef = Some 1, frameRef = Some 3,
       hitTestSourceRef = Object 5, parentElement = Map.empty, calls = [] \<rparr>"

definition attached_canvas_state :: Gallery_state where
  "attached_canvas_state =
     \<lparr> console = [], debugPanel = None, isARSupported = True, arSessionActive = True,
       canvasRef = Some 7, xrSessionRef = Some 1, frameRef = None,
       hitTestSourceRef = Object 5, parentElement = [7 \<mapsto> 0], calls = [] \<rparr>"

definition initial_gallery :: Gallery_state where
  "initial_gallery =
     \<lparr> console = [], debugPanel = Some [], isARSupported = True, arSessionActive = False,
       canvasRef = None, xrSessionRef = None, frameRef = None,
       hitTestSourceRef = Undefined, parentElement = Map.empty, calls = [] \<rparr>"

definition hit_test_rejected :: XR_platform where
  "hit_test_rejected =
     \<lparr> env_getUserMedia = None, env_requestSession = Inr 1, env_createDiag = 10,
       env_createCanvas = 11, env_getContext = Some 12, env_makeXRCompatible = None,
       env_newXRWebGLLayer = None, env_updateRenderState = None, env_newWebGLRenderer = None,
       env_requestLocalSpace = Inr 2, env_requestViewerSpace = Inr 3,
       env_requestHitTestSource = Some (Inl (Rejected (Data ''{}''))) \<rparr>"

definition camera_rejected_opaque :: XR_platform where
  "camera_rejected_opaque =
     \<lparr> env_getUserMedia = Some (Rejected Opaque), env_requestSession = Inr 1,
       env_createDiag = 10, env_createCanvas = 11, env_getContext = Some 12,
       env_makeXRCompatible = None, env_newXRWebGLLayer = None, env_updateRenderState = None,
       env_newWebGLRenderer = None, env_requestLocalSpace = Inr 2,
       env_requestViewerSpace = Inr 3, env_requestHitTestSource = Some (Inr 4) \<rparr>"

subsection \<open>Placement\<close>

text \<open>
  The number of placements logged (\<^verbatim>\<open>placing at\<close> by the listener,
  \<^verbatim>\<open>fallback placement\<close> by the timer), the position the timer computes, and two session
  states that agree on everything placement depends on.
\<close>

definition placement_lines :: "string list \<Rightarrow> nat" where
  "placement_lines ls =
     length (filter (\<lambda>l. l = ''-> placing at'' \<or> l = ''fallback placement'') ls)"

definition fallback_position :: "AR_session \<Rightarrow> Vector3" where
  "fallback_position st =
     \<lparr> vec_x = Fin 0,
       vec_y = js_sub (vec_y (camera_position st)) (js_div (plane_h st) (Fin 2)),
       vec_z = Fin (- 2) \<rparr>"

definition same_placement :: "AR_session \<Rightarrow> AR_session \<Rightarrow> bool" where
  "same_placement a b =
     (placed a = placed b \<and> pictureGroup_position a = pictureGroup_position b
      \<and> pictureGroup_quaternion a = pictureGroup_quaternion b
      \<and> camera_position a = camera_position b \<and> plane_h a = plane_h b
      \<and> placement_lines (console a) = placement_lines (console b))"

text \<open>A print size of the gallery and two poses, used as examples.\<close>

definition print_8x10 :: Size where
  "print_8x10 = \<lparr> size_label = ''8x10'', price = Fin 45, widthCm = Fin 25.4, heightCm = Fin 20.32 \<rparr>"

definition wall_hit :: XRRigidTransform where
  "wall_hit = \<lparr> xr_position = \<lparr> vec_x = Fin 1, vec_y = Fin 0, vec_z = Fin (- 1.5) \<rparr>,
                xr_orientation = \<lparr> quat_x = Fin 0, quat_y = Fin 0, quat_z = Fin 0, quat_w = Fin 1 \<rparr> \<rparr>"

definition floor_hit :: XRRigidTransform where
  "floor_hit = \<lparr> xr_position = \<lparr> vec_x = Fin 0, vec_y = Fin (- 1), vec_z = Fin (- 3) \<rparr>,
                 xr_orientation = \<lparr> quat_x = Fin 0, quat_y = Fin 1, quat_z = Fin 0, quat_w = Fin 0 \<rparr> \<rparr>"

section \<open>Properties of the coordinate transform\<close>

subsection \<open>Finite inputs give real arithmetic\<close>

lemma js_or_fin: "d \<noteq> 0 \<Longrightarrow> is_fin v \<Longrightarrow> \<exists>r. js_or v (Fin d) = Fin r \<and> r \<noteq> 0"
  by (cases v) (simp_all add: js_or_def)

lemma or_default_fin:
  assumes "finite_opt z" and "d \<noteq> 0"
  shows "\<exists>r. or_default z (Fin d) = Fin r \<and> r \<noteq> 0"
proof (cases z)
  case None
  with assms show ?thesis by (simp add: or_default_def)
next
  case (Some v)
  with assms have "is_fin v" by (simp add: finite_opt_def)
  from js_or_fin [OF assms(2) this] Some show ?thesis by (simp add: or_default_def)
qed

lemma or_default_width_fin:
  assumes "finite_dims st" and "d \<noteq> 0"
  shows "\<exists>r. or_default (map_option width st) (Fin d) = Fin r \<and> r \<noteq> 0"
proof (rule or_default_fin [OF _ assms(2)])
  show "finite_opt (map_option width st)"
    using assms(1) by (cases st) (simp_all add: finite_opt_def finite_dims_def)
qed

lemma or_default_height_fin:
  assumes "finite_dims st" and "d \<noteq> 0"
  shows "\<exists>r. or_default (map_option height st) (Fin d) = Fin r \<and> r \<noteq> 0"
proof (rule or_default_fin [OF _ assms(2)])
  show "finite_opt (map_option height st)"
    using assms(1) by (cases st) (simp_all add: finite_opt_def finite_dims_def)
qed

lemma js_or_positive: "0 < d \<Longrightarrow> positive v \<Longrightarrow> \<exists>r. js_or v (Fin d) = Fin r \<and> 0 < r"
  by (cases v) (simp_all add: js_or_def)

lemma or_default_positive:
  assumes "opt_positive z" and "0 < d"
  shows "\<exists>r. or_default z (Fin d) = Fin r \<and> 0 < r"
proof (cases z)
  case None
  with assms show ?thesis by (simp add: or_default_def)
next
  case (Some v)
  with assms have "positive v" by (simp add: opt_positive_def)
  from js_or_positive [OF assms(2) this] Some show ?thesis by (simp add: or_default_def)
qed

lemma or_default_width_positive:
  assumes "dims_positive st" and "0 < d"
  shows "\<exists>r. or_default (map_option width st) (Fin d) = Fin r \<and> 0 < r"
proof (rule or_default_positive [OF _ assms(2)])
  show "opt_positive (map_option width st)"
    using assms(1) by (cases st) (simp_all add: opt_positive_def dims_positive_def)
qed

lemma or_default_height_positive:
  assumes "dims_positive st" and "0 < d"
  shows "\<exists>r. or_default (map_option height st) (Fin d) = Fin r \<and> 0 < r"
proof (rule or_default_positive [OF _ assms(2)])
  show "opt_positive (map_option height st)"
    using assms(1) by (cases st) (simp_all add: opt_positive_def dims_positive_def)
qed

lemma or_default_Some_fin: "z \<noteq> 0 \<Longrightarrow> or_default (Some (Fin z)) d = Fin z"
  by (simp add: or_default_def js_or_def)

lemma or_default_None: "or_default None d = d"
  by (simp add: or_default_def)

lemma or_default_same:
  "or_default (Some (Fin 0.5)) (Fin 0.5) = Fin 0.5"
  "or_default (Some (Fin 400)) (Fin 400) = Fin 400"
  "or_default (Some (Fin 300)) (Fin 300) = Fin 300"
  by (simp_all add: or_default_def js_or_def)

lemma or_default_zero: "or_default (Some (Fin 0)) d = d"
  by (simp add: or_default_def js_or_def)

lemma js_div_fin: "b \<noteq> 0 \<Longrightarrow> js_div (Fin a) (Fin b) = Fin (a / b)"
  by simp

lemma centre_fin:
  "sw \<noteq> 0 \<Longrightarrow> js_div (Fin px) (js_div (Fin sw) (Fin rw)) = Fin (px / (sw / rw))"
  by simp

lemma clamp_fin:
  "js_max (Fin 0) (js_min (js_sub (Fin c) (js_div (Fin s) (Fin 2))) (js_sub (Fin r) (Fin s)))
     = Fin (clampOrigin c s r)"
  by (simp add: clampOrigin_def)

text \<open>
  The result in closed form when the function does not rescale, and when it does. The
  centre needs no assumption on the reference size: for a reference width of zero the
  stage scale is infinite and the centre is zero.
\<close>

lemma getMagnifyParams_finite:
  assumes sz: "or_default zoomScale (Fin 0.5) = Fin z" and z0: "z \<noteq> 0"
    and ssw: "or_default (map_option width stageDimensions) (Fin 400) = Fin sw" and sw0: "sw \<noteq> 0"
    and ssh: "or_default (map_option height stageDimensions) (Fin 300) = Fin sh" and sh0: "sh \<noteq> 0"
    and smw: "or_default (map_option width magDimensions) (Fin 400) = Fin mw"
    and smh: "or_default (map_option height magDimensions) (Fin 400) = Fin mh"
    and rw: "rw = real (referenceWidth img referenceImage)"
    and rh: "rh = real (referenceHeight img referenceImage)"
    and nr: "no_rescale img referenceImage"
  shows "getMagnifyParams (Some img) referenceImage \<lparr> pos_x = Fin px, pos_y = Fin py \<rparr>
           stageDimensions magDimensions zoomScale =
         Some \<lparr> mp_x = Fin (clampOrigin (px / (sw / rw)) (mw / z) rw),
                mp_y = Fin (clampOrigin (py / (sh / rh)) (mh / z) rh),
                mp_scaleX = Fin z, mp_scaleY = Fin z,
                mp_sourceWidth = Fin (mw / z), mp_sourceHeight = Fin (mh / z),
                mp_centerX = Fin (px / (sw / rw)),
                mp_centerY = Fin (py / (sh / rh)) \<rparr>"
proof -
  have w: "(case referenceImage of None \<Rightarrow> Fin (real (img_width img))
             | Some r \<Rightarrow> Fin (real (img_width r))) = Fin rw"
    using rw by (simp add: referenceWidth_def split: option.splits)
  have h: "(case referenceImage of None \<Rightarrow> Fin (real (img_height img))
             | Some r \<Rightarrow> Fin (real (img_height r))) = Fin rh"
    using rh by (simp add: referenceHeight_def split: option.splits)
  have n: "(case referenceImage of None \<Rightarrow> False
             | Some r \<Rightarrow> img_handle img \<noteq> img_handle r) = False"
    using nr by (simp add: no_rescale_def split: option.splits)
  show ?thesis
    unfolding getMagnifyParams_def Let_def
    by (simp only: option.case w h n sz ssw ssh smw smh if_False Position.simps
          centre_fin [OF sw0] centre_fin [OF sh0] js_div_fin [OF z0] clamp_fin)
qed

lemma getMagnifyParams_finite_rescale:
  assumes sz: "or_default zoomScale (Fin 0.5) = Fin z" and z0: "z \<noteq> 0"
    and ssw: "or_default (map_option width stageDimensions) (Fin 400) = Fin sw" and sw0: "sw \<noteq> 0"
    and ssh: "or_default (map_option height stageDimensions) (Fin 300) = Fin sh" and sh0: "sh \<noteq> 0"
    and smw: "or_default (map_option width magDimensions) (Fin 400) = Fin mw"
    and smh: "or_default (map_option height magDimensions) (Fin 400) = Fin mh"
    and rw: "rw = real (img_width r)" "rw \<noteq> 0"
    and rh: "rh = real (img_height r)" "rh \<noteq> 0"
    and iw: "iw = real (img_width img)" "iw \<noteq> 0"
    and ih: "ih = real (img_height img)" "ih \<noteq> 0"
    and nr: "img_handle img \<noteq> img_handle r"
  shows "getMagnifyParams (Some img) (Some r) \<lparr> pos_x = Fin px, pos_y = Fin py \<rparr>
           stageDimensions magDimensions zoomScale =
         Some \<lparr> mp_x = Fin (clampOrigin (px / (sw / rw)) (mw / z) rw * (iw / rw)),
                mp_y = Fin (clampOrigin (py / (sh / rh)) (mh / z) rh * (ih / rh)),
                mp_scaleX = Fin (z / (iw / rw)), mp_scaleY = Fin (z / (ih / rh)),
                mp_sourceWidth = Fin (mw / z), mp_sourceHeight = Fin (mh / z),
                mp_centerX = Fin (px / (sw / rw)),
                mp_centerY = Fin (py / (sh / rh)) \<rparr>"
proof -
  have qx: "iw / rw \<noteq> 0" using iw(2) rw(2) by simp
  have qy: "ih / rh \<noteq> 0" using ih(2) rh(2) by simp
  have sx: "js_div (Fin (real (img_width img))) (Fin rw) = Fin (iw / rw)"
    using rw iw by simp
  have sy: "js_div (Fin (real (img_height img))) (Fin rh) = Fin (ih / rh)"
    using rh ih by simp
  show ?thesis
    unfolding getMagnifyParams_def Let_def
    by (simp only: option.case sz ssw ssh smw smh nr not_False_eq_True if_True Position.simps sx sy
          rw(1) [symmetric] rh(1) [symmetric]
          centre_fin [OF sw0] centre_fin [OF sh0] js_div_fin [OF z0] clamp_fin
          js_mul.simps js_div_fin [OF qx] js_div_fin [OF qy])
qed

text \<open>The clamped region is inside the reference image exactly when it is not larger.\<close>

lemma clamp_within_iff:
  assumes "0 < s"
  shows "(0 \<le> clampOrigin c s r \<and> clampOrigin c s r \<le> r \<and>
          0 \<le> clampOrigin c s r + s \<and> clampOrigin c s r + s \<le> r) = (s \<le> r)"
  using assms unfolding clampOrigin_def by (auto simp: max_def min_def)

lemma rect_within_clamped:
  assumes "0 < s" and "0 < t"
  shows "rect_within \<lparr> mp_x = Fin (clampOrigin c s (real rw)), mp_y = Fin (clampOrigin d t (real rh)),
                        mp_scaleX = a, mp_scaleY = b,
                        mp_sourceWidth = Fin s, mp_sourceHeight = Fin t,
                        mp_centerX = e, mp_centerY = f \<rparr> rw rh
         = (s \<le> real rw \<and> t \<le> real rh)"
proof -
  note X = clamp_within_iff [OF assms(1), of c "real rw"]
  note Y = clamp_within_iff [OF assms(2), of d "real rh"]
  show ?thesis
    unfolding rect_within_def using X Y by (simp only: MagnifyParams.simps prod.case jsnum.case) blast
qed

lemma magnify_within_iff_fits:
  assumes z: "opt_positive zoomScale" and st: "dims_positive stageDimensions"
    and mg: "dims_positive magDimensions" and nr: "no_rescale img referenceImage"
  shows "\<exists>p w h. getMagnifyParams (Some img) referenceImage \<lparr> pos_x = Fin px, pos_y = Fin py \<rparr>
                   stageDimensions magDimensions zoomScale = Some p
           \<and> mp_sourceWidth p = Fin w \<and> mp_sourceHeight p = Fin h \<and> 0 < w \<and> 0 < h
           \<and> rect_within p (referenceWidth img referenceImage) (referenceHeight img referenceImage)
               = (w \<le> real (referenceWidth img referenceImage) \<and>
                  h \<le> real (referenceHeight img referenceImage))"
proof -
  from or_default_positive [OF z, of "0.5"]
  obtain zr where zr: "or_default zoomScale (Fin 0.5) = Fin zr" "0 < zr" by auto
  from or_default_width_positive [OF st, of 400]
  obtain sw where sw: "or_default (map_option width stageDimensions) (Fin 400) = Fin sw" "0 < sw" by auto
  from or_default_height_positive [OF st, of 300]
  obtain sh where sh: "or_default (map_option height stageDimensions) (Fin 300) = Fin sh" "0 < sh" by auto
  from or_default_width_positive [OF mg, of 400]
  obtain mw where mw: "or_default (map_option width magDimensions) (Fin 400) = Fin mw" "0 < mw" by auto
  from or_default_height_positive [OF mg, of 400]
  obtain mh where mh: "or_default (map_option height magDimensions) (Fin 400) = Fin mh" "0 < mh" by auto
  have nz: "zr \<noteq> 0" "sw \<noteq> 0" "sh \<noteq> 0" using zr sw sh by simp_all
  note F = getMagnifyParams_finite [OF zr(1) nz(1) sw(1) nz(2) sh(1) nz(3) mw(1) mh(1) refl refl nr,
      of px py]
  have w: "0 < mw / zr" and h: "0 < mh / zr" using zr mw mh by simp_all
  let ?rw = "referenceWidth img referenceImage" and ?rh = "referenceHeight img referenceImage"
  let ?p = "\<lparr> mp_x = Fin (clampOrigin (px / (sw / real ?rw)) (mw / zr) (real ?rw)),
              mp_y = Fin (clampOrigin (py / (sh / real ?rh)) (mh / zr) (real ?rh)),
              mp_scaleX = Fin zr, mp_scaleY = Fin zr,
              mp_sourceWidth = Fin (mw / zr), mp_sourceHeight = Fin (mh / zr),
              mp_centerX = Fin (px / (sw / real ?rw)),
              mp_centerY = Fin (py / (sh / real ?rh)) \<rparr>"
  have R: "rect_within ?p ?rw ?rh = (mw / zr \<le> real ?rw \<and> mh / zr \<le> real ?rh)"
    by (rule rect_within_clamped [OF w h])
  have S: "mp_sourceWidth ?p = Fin (mw / zr)" "mp_sourceHeight ?p = Fin (mh / zr)"
    by simp_all
  show ?thesis
    using F R S w h by blast
qed

subsection \<open>The pointer at the centre of the stage\<close>

text \<open>
  C7. With stage dimensions \<open>sw \<times> sh\<close>, both positive, and the pointer at
  \<open>(sw / 2, sh / 2)\<close>, the centre that getMagnifyParams returns is
  \<open>(referenceWidth / 2, referenceHeight / 2)\<close>, whatever the zoom and the output
  dimensions are. In exact arithmetic the two are equal.
\<close>

theorem center_of_stage_maps_to_center_of_reference:
  assumes "0 < sw" and "0 < sh"
  shows "\<exists>p. getMagnifyParams (Some img) referenceImage
                 \<lparr> pos_x = Fin (sw / 2), pos_y = Fin (sh / 2) \<rparr>
                 (Some \<lparr> width = Fin sw, height = Fin sh \<rparr>) magDimensions zoomScale = Some p
           \<and> mp_centerX p = Fin (real (referenceWidth img referenceImage) / 2)
           \<and> mp_centerY p = Fin (real (referenceHeight img referenceImage) / 2)"
  using assms
  by (auto simp: getMagnifyParams_def Let_def or_default_def js_or_def
      referenceWidth_def referenceHeight_def split: option.splits)

text \<open>A 600 by 400 image on the default 400 by 300 stage: the centre is (300, 200).\<close>

theorem center_of_stage_witness:
  "(0::real) < 400 \<and> (0::real) < 300 \<and>
   (\<exists>p. getMagnifyParams (Some \<lparr> img_handle = 1, img_width = 600, img_height = 400 \<rparr>) None
                 \<lparr> pos_x = Fin (400 / 2), pos_y = Fin (300 / 2) \<rparr>
                 (Some \<lparr> width = Fin 400, height = Fin 300 \<rparr>) None None = Some p
           \<and> mp_centerX p = Fin 300 \<and> mp_centerY p = Fin 200)"
  using center_of_stage_maps_to_center_of_reference
          [of 400 300 "\<lparr> img_handle = 1, img_width = 600, img_height = 400 \<rparr>" None None None]
  by (simp add: referenceWidth_def referenceHeight_def)

subsection \<open>The sampled rectangle and the reference image\<close>

text \<open>
  C1, as the code has it. With the magnified image as the reference image and positive
  zoom, stage and output dimensions, for every pointer position the sampled rectangle
  lies within \<open>[0, referenceWidth] \<times> [0, referenceHeight]\<close> if and only if the sampled
  region fits into the reference image: \<open>magWidth / zoom \<le> referenceWidth\<close> and
  \<open>magHeight / zoom \<le> referenceHeight\<close>.
\<close>

theorem sampled_rectangle_within_iff_region_fits:
  assumes "0 < z" and "0 < sw" and "0 < sh" and "0 < mw" and "0 < mh"
  shows "\<exists>p. getMagnifyParams (Some img) (Some img) \<lparr> pos_x = Fin px, pos_y = Fin py \<rparr>
                (Some \<lparr> width = Fin sw, height = Fin sh \<rparr>)
                (Some \<lparr> width = Fin mw, height = Fin mh \<rparr>) (Some (Fin z)) = Some p
           \<and> rect_within p (img_width img) (img_height img)
               = (mw / z \<le> real (img_width img) \<and> mh / z \<le> real (img_height img))"
proof -
  have nz: "z \<noteq> 0" "sw \<noteq> 0" "sh \<noteq> 0" "mw \<noteq> 0" "mh \<noteq> 0" using assms by simp_all
  have nr: "no_rescale img (Some img)" by (simp add: no_rescale_def)
  have rw: "real (img_width img) = real (referenceWidth img (Some img))"
    and rh: "real (img_height img) = real (referenceHeight img (Some img))"
    by (simp_all add: referenceWidth_def referenceHeight_def)
  have e: "or_default (Some (Fin z)) (Fin 0.5) = Fin z"
    "or_default (map_option width (Some \<lparr> width = Fin sw, height = Fin sh \<rparr>)) (Fin 400) = Fin sw"
    "or_default (map_option height (Some \<lparr> width = Fin sw, height = Fin sh \<rparr>)) (Fin 300) = Fin sh"
    "or_default (map_option width (Some \<lparr> width = Fin mw, height = Fin mh \<rparr>)) (Fin 400) = Fin mw"
    "or_default (map_option height (Some \<lparr> width = Fin mw, height = Fin mh \<rparr>)) (Fin 400) = Fin mh"
    using nz by (simp_all add: or_default_Some_fin)
  note F = getMagnifyParams_finite [OF e(1) nz(1) e(2) nz(2) e(3) nz(3) e(4) e(5) rw rh nr, of px py]
  have w: "0 < mw / z" and h: "0 < mh / z" using assms by simp_all
  note R = rect_within_clamped [OF w h]
  show ?thesis
    unfolding F by (rule exI, rule conjI, rule refl, rule R)
qed

text \<open>Zoom 2 on a 600 by 400 image: the region is 200 by 200 and stays inside.\<close>

theorem sampled_rectangle_within_witness:
  "(0::real) < 2 \<and> (0::real) < 400 \<and> (0::real) < 300 \<and>
   (\<exists>p. getMagnifyParams (Some \<lparr> img_handle = 1, img_width = 600, img_height = 400 \<rparr>)
                (Some \<lparr> img_handle = 1, img_width = 600, img_height = 400 \<rparr>)
                \<lparr> pos_x = Fin 200, pos_y = Fin 150 \<rparr>
                (Some \<lparr> width = Fin 400, height = Fin 300 \<rparr>)
                (Some \<lparr> width = Fin 400, height = Fin 400 \<rparr>) (Some (Fin 2)) = Some p
           \<and> rect_within p 600 400)"
  using sampled_rectangle_within_iff_region_fits
          [of 2 400 300 400 400 "\<lparr> img_handle = 1, img_width = 600, img_height = 400 \<rparr>" 200 150]
  by simp

text \<open>
  C1 as stated fails. With the values the page itself uses (output 400 by 400, zoom 0.5)
  the region is 800 by 800; on a 600 by 400 image the pointer (200, 150), strictly inside
  the 400 by 300 stage, gives the origin (0, 0) and a rectangle that ends at 800.
\<close>

theorem sampled_rectangle_exceeds_reference:
  "getMagnifyParams (Some \<lparr> img_handle = 1, img_width = 600, img_height = 400 \<rparr>)
      (Some \<lparr> img_handle = 1, img_width = 600, img_height = 400 \<rparr>)
      \<lparr> pos_x = Fin 200, pos_y = Fin 150 \<rparr>
      (Some \<lparr> width = Fin 400, height = Fin 300 \<rparr>)
      (Some \<lparr> width = Fin 400, height = Fin 400 \<rparr>) (Some (Fin 0.5))
    = Some \<lparr> mp_x = Fin 0, mp_y = Fin 0, mp_scaleX = Fin 0.5, mp_scaleY = Fin 0.5,
             mp_sourceWidth = Fin 800, mp_sourceHeight = Fin 800,
             mp_centerX = Fin 300, mp_centerY = Fin 200 \<rparr>
   \<and> \<not> rect_within \<lparr> mp_x = Fin 0, mp_y = Fin 0, mp_scaleX = Fin 0.5, mp_scaleY = Fin 0.5,
             mp_sourceWidth = Fin 800, mp_sourceHeight = Fin 800,
             mp_centerX = Fin 300, mp_centerY = Fin 200 \<rparr> 600 400"
  by (simp add: getMagnifyParams_def Let_def or_default_def js_or_def rect_within_def)

subsection \<open>Missing inputs\<close>

text \<open>
  With positive or absent zoom, stage and output size the result is given in closed
  form, whether or not the function rescales. Taken back to reference coordinates (the
  origin divided by the rescale factors), the rectangle lies within the reference image
  exactly when the sampled size fits into it.
\<close>

lemma or_default_effective:
  assumes "opt_positive v" and "0 < d"
  shows "or_default v (Fin d) = Fin (effective d v)" and "0 < effective d v"
proof -
  show "or_default v (Fin d) = Fin (effective d v)"
  proof (cases v)
    case None
    then show ?thesis by (simp add: or_default_def effective_def)
  next
    case (Some x)
    with assms(1) have "positive x" by (simp add: opt_positive_def)
    then obtain r where "x = Fin r" "0 < r" by (cases x) simp_all
    with Some show ?thesis by (simp add: or_default_def js_or_def effective_def)
  qed
  show "0 < effective d v"
  proof (cases v)
    case None
    with assms(2) show ?thesis by (simp add: effective_def)
  next
    case (Some x)
    with assms(1) have "positive x" by (simp add: opt_positive_def)
    then obtain r where "x = Fin r" "0 < r" by (cases x) simp_all
    with Some show ?thesis by (simp add: effective_def)
  qed
qed

lemma dims_positive_opt:
  assumes "dims_positive d"
  shows "opt_positive (map_option width d)" and "opt_positive (map_option height d)"
  using assms by (cases d; simp add: opt_positive_def dims_positive_def)+

lemma rect_within_unscaled:
  assumes "0 < s" and "0 < t" and "kx \<noteq> 0" and "ky \<noteq> 0"
  shows "rect_within
           (\<lparr> mp_x = Fin (clampOrigin c s (real rw) * kx),
              mp_y = Fin (clampOrigin d t (real rh) * ky),
              mp_scaleX = a, mp_scaleY = b,
              mp_sourceWidth = Fin s, mp_sourceHeight = Fin t,
              mp_centerX = e, mp_centerY = f \<rparr>
            \<lparr> mp_x := js_div (Fin (clampOrigin c s (real rw) * kx)) (Fin kx),
              mp_y := js_div (Fin (clampOrigin d t (real rh) * ky)) (Fin ky) \<rparr>) rw rh
         = (s \<le> real rw \<and> t \<le> real rh)"
proof -
  have x: "js_div (Fin (clampOrigin c s (real rw) * kx)) (Fin kx) = Fin (clampOrigin c s (real rw))"
    using assms(3) by simp
  have y: "js_div (Fin (clampOrigin d t (real rh) * ky)) (Fin ky) = Fin (clampOrigin d t (real rh))"
    using assms(4) by simp
  show ?thesis
    unfolding x y by (simp only: MagnifyParams.simps rect_within_clamped [OF assms(1,2)])
qed

lemma magnify_closed_form:
  assumes z: "opt_positive zoomScale" and st: "dims_positive stageDimensions"
    and mg: "dims_positive magDimensions"
    and ii: "no_rescale img referenceImage
             \<or> (0 < img_width img \<and> 0 < img_height img
                \<and> 0 < referenceWidth img referenceImage \<and> 0 < referenceHeight img referenceImage)"
  shows "\<exists>p. getMagnifyParams (Some img) referenceImage \<lparr> pos_x = Fin px, pos_y = Fin py \<rparr>
                stageDimensions magDimensions zoomScale = Some p
     \<and> mp_sourceWidth p
         = Fin (effective 400 (map_option width magDimensions) / effective 0.5 zoomScale)
     \<and> mp_sourceHeight p
         = Fin (effective 400 (map_option height magDimensions) / effective 0.5 zoomScale)
     \<and> mp_centerX p
         = Fin (px / (effective 400 (map_option width stageDimensions)
                        / real (referenceWidth img referenceImage)))
     \<and> mp_centerY p
         = Fin (py / (effective 300 (map_option height stageDimensions)
                        / real (referenceHeight img referenceImage)))
     \<and> mp_x p
         = Fin (clampOrigin
                  (px / (effective 400 (map_option width stageDimensions)
                           / real (referenceWidth img referenceImage)))
                  (effective 400 (map_option width magDimensions) / effective 0.5 zoomScale)
                  (real (referenceWidth img referenceImage))
                * rescale_x img referenceImage)
     \<and> mp_y p
         = Fin (clampOrigin
                  (py / (effective 300 (map_option height stageDimensions)
                           / real (referenceHeight img referenceImage)))
                  (effective 400 (map_option height magDimensions) / effective 0.5 zoomScale)
                  (real (referenceHeight img referenceImage))
                * rescale_y img referenceImage)
     \<and> mp_scaleX p = Fin (effective 0.5 zoomScale / rescale_x img referenceImage)
     \<and> mp_scaleY p = Fin (effective 0.5 zoomScale / rescale_y img referenceImage)
     \<and> rect_within
          (p\<lparr> mp_x := js_div (mp_x p) (Fin (rescale_x img referenceImage)),
              mp_y := js_div (mp_y p) (Fin (rescale_y img referenceImage)) \<rparr>)
          (referenceWidth img referenceImage) (referenceHeight img referenceImage)
        = (effective 400 (map_option width magDimensions) / effective 0.5 zoomScale
             \<le> real (referenceWidth img referenceImage)
           \<and> effective 400 (map_option height magDimensions) / effective 0.5 zoomScale
             \<le> real (referenceHeight img referenceImage))"
proof -
  define zv where "zv = effective 0.5 zoomScale"
  define sw where "sw = effective 400 (map_option width stageDimensions)"
  define sh where "sh = effective 300 (map_option height stageDimensions)"
  define mw where "mw = effective 400 (map_option width magDimensions)"
  define mh where "mh = effective 400 (map_option height magDimensions)"
  define RW where "RW = referenceWidth img referenceImage"
  define RH where "RH = referenceHeight img referenceImage"
  define kx where "kx = rescale_x img referenceImage"
  define ky where "ky = rescale_y img referenceImage"
  note defs = zv_def sw_def sh_def mw_def mh_def RW_def RH_def kx_def ky_def
  have Z1: "or_default zoomScale (Fin 0.5) = Fin zv" and zp: "0 < zv"
    using or_default_effective [OF z, of "0.5"] by (simp_all add: zv_def)
  have S1: "or_default (map_option width stageDimensions) (Fin 400) = Fin sw" and swp: "0 < sw"
    using or_default_effective [OF dims_positive_opt(1) [OF st], of 400] by (simp_all add: sw_def)
  have S2: "or_default (map_option height stageDimensions) (Fin 300) = Fin sh" and shp: "0 < sh"
    using or_default_effective [OF dims_positive_opt(2) [OF st], of 300] by (simp_all add: sh_def)
  have M1: "or_default (map_option width magDimensions) (Fin 400) = Fin mw" and mwp: "0 < mw"
    using or_default_effective [OF dims_positive_opt(1) [OF mg], of 400] by (simp_all add: mw_def)
  have M2: "or_default (map_option height magDimensions) (Fin 400) = Fin mh" and mhp: "0 < mh"
    using or_default_effective [OF dims_positive_opt(2) [OF mg], of 400] by (simp_all add: mh_def)
  have nz: "zv \<noteq> 0" "sw \<noteq> 0" "sh \<noteq> 0" using zp swp shp by simp_all
  have w: "0 < mw / zv" and h: "0 < mh / zv" using zp mwp mhp by simp_all
  let ?P = "\<lparr> mp_x = Fin (clampOrigin (px / (sw / real RW)) (mw / zv) (real RW) * kx),
              mp_y = Fin (clampOrigin (py / (sh / real RH)) (mh / zv) (real RH) * ky),
              mp_scaleX = Fin (zv / kx), mp_scaleY = Fin (zv / ky),
              mp_sourceWidth = Fin (mw / zv), mp_sourceHeight = Fin (mh / zv),
              mp_centerX = Fin (px / (sw / real RW)),
              mp_centerY = Fin (py / (sh / real RH)) \<rparr>"
  have G: "getMagnifyParams (Some img) referenceImage \<lparr> pos_x = Fin px, pos_y = Fin py \<rparr>
             stageDimensions magDimensions zoomScale = Some ?P \<and> kx \<noteq> 0 \<and> ky \<noteq> 0"
  proof (cases "no_rescale img referenceImage")
    case True
    have k: "kx = 1" "ky = 1" using True by (simp_all add: kx_def ky_def rescale_x_def rescale_y_def)
    note F = getMagnifyParams_finite
      [OF Z1 nz(1) S1 nz(2) S2 nz(3) M1 M2 RW_def [THEN arg_cong [of _ _ real]]
          RH_def [THEN arg_cong [of _ _ real]] True, of px py]
    show ?thesis unfolding F k by simp
  next
    case False
    then obtain r where r: "referenceImage = Some r" "img_handle img \<noteq> img_handle r"
      by (auto simp: no_rescale_def split: option.splits)
    from ii False have d: "0 < img_width img" "0 < img_height img" "0 < RW" "0 < RH"
      by (simp_all add: RW_def RH_def)
    have rr: "real RW = real (img_width r)" "real RH = real (img_height r)"
      using r(1) by (simp_all add: RW_def RH_def referenceWidth_def referenceHeight_def)
    have k: "kx = real (img_width img) / real RW" "ky = real (img_height img) / real RH"
      using False by (simp_all add: kx_def ky_def RW_def RH_def rescale_x_def rescale_y_def)
    have nzd: "real RW \<noteq> 0" "real RH \<noteq> 0"
      "real (img_width img) \<noteq> 0" "real (img_height img) \<noteq> 0"
      using d by simp_all
    have kz: "kx \<noteq> 0" "ky \<noteq> 0" using nzd k by simp_all
    note F = getMagnifyParams_finite_rescale
      [OF Z1 nz(1) S1 nz(2) S2 nz(3) M1 M2 rr(1) nzd(1) rr(2) nzd(2) refl nzd(3) refl nzd(4) r(2),
       of px py]
    show ?thesis unfolding r(1) F k [symmetric] using kz by simp
  qed
  then have g: "getMagnifyParams (Some img) referenceImage \<lparr> pos_x = Fin px, pos_y = Fin py \<rparr>
             stageDimensions magDimensions zoomScale = Some ?P" and kz: "kx \<noteq> 0" "ky \<noteq> 0"
    by simp_all
  have f: "mp_sourceWidth ?P = Fin (mw / zv)" "mp_sourceHeight ?P = Fin (mh / zv)"
    "mp_centerX ?P = Fin (px / (sw / real RW))" "mp_centerY ?P = Fin (py / (sh / real RH))"
    "mp_x ?P = Fin (clampOrigin (px / (sw / real RW)) (mw / zv) (real RW) * kx)"
    "mp_y ?P = Fin (clampOrigin (py / (sh / real RH)) (mh / zv) (real RH) * ky)"
    "mp_scaleX ?P = Fin (zv / kx)" "mp_scaleY ?P = Fin (zv / ky)"
    by (simp_all only: MagnifyParams.simps)
  have R': "rect_within (?P\<lparr> mp_x := js_div (mp_x ?P) (Fin kx), mp_y := js_div (mp_y ?P) (Fin ky) \<rparr>)
              RW RH = (mw / zv \<le> real RW \<and> mh / zv \<le> real RH)"
    unfolding f(5,6) by (rule rect_within_unscaled [OF w h kz])
  show ?thesis
    unfolding defs [symmetric]
    by (intro exI [of _ ?P] conjI g f R')
qed

text \<open>
  C2, as the code has it. The function returns no result exactly when the image is
  absent. A missing zoom, stage or output size gives the result that 0.5, 400 by 300 and
  400 by 400 give. When the inputs that are present are positive, and the dimensions of
  both images are positive where the magnified image is another image than the reference
  image, a result is returned for every pointer position, and it is this one: the sampled
  size is the output size divided by the zoom (800 by 800 under the defaults); the
  centre is the pointer divided by the ratio of stage to reference size; the origin is
  the clamp \<open>max 0 (min (centre - size / 2) (reference - size))\<close> times the rescale
  factor; the scale is the zoom divided by the rescale factor. The rectangle, taken back
  to reference coordinates, lies within the reference bounds exactly when the sampled
  size fits into the reference image.
\<close>

theorem defaults_total_and_clamped_when_fitting:
  "(getMagnifyParams imageArg referenceImage pos stageDimensions magDimensions zoomScale = None)
      = (imageArg = None)
   \<and> getMagnifyParams imageArg referenceImage pos stageDimensions magDimensions None
      = getMagnifyParams imageArg referenceImage pos stageDimensions magDimensions (Some (Fin 0.5))
   \<and> getMagnifyParams imageArg referenceImage pos None magDimensions zoomScale
      = getMagnifyParams imageArg referenceImage pos
          (Some \<lparr> width = Fin 400, height = Fin 300 \<rparr>) magDimensions zoomScale
   \<and> getMagnifyParams imageArg referenceImage pos stageDimensions None zoomScale
      = getMagnifyParams imageArg referenceImage pos stageDimensions
          (Some \<lparr> width = Fin 400, height = Fin 400 \<rparr>) zoomScale
   \<and> (opt_positive zoomScale \<and> dims_positive stageDimensions \<and> dims_positive magDimensions
        \<and> (no_rescale img referenceImage
             \<or> (0 < img_width img \<and> 0 < img_height img
                \<and> 0 < referenceWidth img referenceImage \<and> 0 < referenceHeight img referenceImage))
       \<longrightarrow>
       (\<exists>p. getMagnifyParams (Some img) referenceImage \<lparr> pos_x = Fin px, pos_y = Fin py \<rparr>
                stageDimensions magDimensions zoomScale = Some p
     \<and> mp_sourceWidth p
         = Fin (effective 400 (map_option width magDimensions) / effective 0.5 zoomScale)
     \<and> mp_sourceHeight p
         = Fin (effective 400 (map_option height magDimensions) / effective 0.5 zoomScale)
     \<and> mp_centerX p
         = Fin (px / (effective 400 (map_option width stageDimensions)
                        / real (referenceWidth img referenceImage)))
     \<and> mp_centerY p
         = Fin (py / (effective 300 (map_option height stageDimensions)
                        / real (referenceHeight img referenceImage)))
     \<and> mp_x p
         = Fin (clampOrigin
                  (px / (effective 400 (map_option width stageDimensions)
                           / real (referenceWidth img referenceImage)))
                  (effective 400 (map_option width magDimensions) / effective 0.5 zoomScale)
                  (real (referenceWidth img referenceImage))
                * rescale_x img referenceImage)
     \<and> mp_y p
         = Fin (clampOrigin
                  (py / (effective 300 (map_option height stageDimensions)
                           / real (referenceHeight img referenceImage)))
                  (effective 400 (map_option height magDimensions) / effective 0.5 zoomScale)
                  (real (referenceHeight img referenceImage))
                * rescale_y img referenceImage)
     \<and> mp_scaleX p = Fin (effective 0.5 zoomScale / rescale_x img referenceImage)
     \<and> mp_scaleY p = Fin (effective 0.5 zoomScale / rescale_y img referenceImage)
     \<and> rect_within
          (p\<lparr> mp_x := js_div (mp_x p) (Fin (rescale_x img referenceImage)),
              mp_y := js_div (mp_y p) (Fin (rescale_y img referenceImage)) \<rparr>)
          (referenceWidth img referenceImage) (referenceHeight img referenceImage)
        = (effective 400 (map_option width magDimensions) / effective 0.5 zoomScale
             \<le> real (referenceWidth img referenceImage)
           \<and> effective 400 (map_option height magDimensions) / effective 0.5 zoomScale
             \<le> real (referenceHeight img referenceImage))))"
proof (intro conjI impI)
  show "(getMagnifyParams imageArg referenceImage pos stageDimensions magDimensions zoomScale = None)
      = (imageArg = None)"
    by (cases imageArg) (simp_all add: getMagnifyParams_def Let_def)
  show "getMagnifyParams imageArg referenceImage pos stageDimensions magDimensions None
      = getMagnifyParams imageArg referenceImage pos stageDimensions magDimensions (Some (Fin 0.5))"
    by (simp only: getMagnifyParams_def or_default_None or_default_same option.map Dimensions.simps)
  show "getMagnifyParams imageArg referenceImage pos None magDimensions zoomScale
      = getMagnifyParams imageArg referenceImage pos
          (Some \<lparr> width = Fin 400, height = Fin 300 \<rparr>) magDimensions zoomScale"
    by (simp only: getMagnifyParams_def or_default_None or_default_same option.map Dimensions.simps)
  show "getMagnifyParams imageArg referenceImage pos stageDimensions None zoomScale
      = getMagnifyParams imageArg referenceImage pos stageDimensions
          (Some \<lparr> width = Fin 400, height = Fin 400 \<rparr>) zoomScale"
    by (simp only: getMagnifyParams_def or_default_None or_default_same option.map Dimensions.simps)
qed (rule magnify_closed_form; blast)

text \<open>All three inputs missing, a 4000 by 3000 image magnified against a 2000 by 1500
  reference image: the sampled size is 800 by 800, and the origin (2200, 1400) is (1100,
  700) in reference coordinates.\<close>

theorem defaults_witness:
  "opt_positive None \<and> dims_positive None
   \<and> 0 < img_width film_scan_large \<and> 0 < img_height film_scan_large
   \<and> 0 < referenceWidth film_scan_large (Some film_scan)
   \<and> 0 < referenceHeight film_scan_large (Some film_scan)
   \<and> (\<exists>p. getMagnifyParams (Some film_scan_large) (Some film_scan)
              \<lparr> pos_x = Fin 300, pos_y = Fin 225 \<rparr> None None None = Some p
         \<and> mp_sourceWidth p = Fin 800 \<and> mp_sourceHeight p = Fin 800
         \<and> mp_centerX p = Fin 1500 \<and> mp_centerY p = Fin 1125
         \<and> mp_x p = Fin 2200 \<and> mp_y p = Fin 1400
         \<and> mp_scaleX p = Fin 0.25 \<and> mp_scaleY p = Fin 0.25
         \<and> rect_within (p\<lparr> mp_x := js_div (mp_x p) (Fin 2), mp_y := js_div (mp_y p) (Fin 2) \<rparr>)
              2000 1500)"
proof -
  have h: "opt_positive None" "dims_positive None"
    "0 < img_width film_scan_large" "0 < img_height film_scan_large"
    "0 < referenceWidth film_scan_large (Some film_scan)"
    "0 < referenceHeight film_scan_large (Some film_scan)"
    by (simp_all add: opt_positive_def dims_positive_def film_scan_large_def film_scan_def
        referenceWidth_def referenceHeight_def)
  have v: "effective 400 None = 400" "effective 300 None = 300" "effective 0.5 None = 0.5"
    "effective (1 / 2) None = 1 / 2"
    "rescale_x film_scan_large (Some film_scan) = 2"
    "rescale_y film_scan_large (Some film_scan) = 2"
    "referenceWidth film_scan_large (Some film_scan) = 2000"
    "referenceHeight film_scan_large (Some film_scan) = 1500"
    by (simp_all add: effective_def rescale_x_def rescale_y_def no_rescale_def
        referenceWidth_def referenceHeight_def film_scan_large_def film_scan_def)
  have hc: "opt_positive None \<and> dims_positive None \<and> dims_positive None
        \<and> (no_rescale film_scan_large (Some film_scan)
             \<or> (0 < img_width film_scan_large \<and> 0 < img_height film_scan_large
                \<and> 0 < referenceWidth film_scan_large (Some film_scan)
                \<and> 0 < referenceHeight film_scan_large (Some film_scan)))"
    by (intro conjI disjI2 h)
  note T = defaults_total_and_clamped_when_fitting
          [where zoomScale = None and stageDimensions = None and magDimensions = None
             and img = film_scan_large and referenceImage = "Some film_scan"
             and px = 300 and py = 225,
           THEN conjunct2, THEN conjunct2, THEN conjunct2, THEN conjunct2, THEN mp, OF hc]
  from T obtain p where p:
    "getMagnifyParams (Some film_scan_large) (Some film_scan)
              \<lparr> pos_x = Fin 300, pos_y = Fin 225 \<rparr> None None None = Some p
    \<and> mp_sourceWidth p = Fin (effective 400 (map_option width (None :: Dimensions option)) / effective 0.5 None)
    \<and> mp_sourceHeight p = Fin (effective 400 (map_option height (None :: Dimensions option)) / effective 0.5 None)
    \<and> mp_centerX p = Fin (300 / (effective 400 (map_option width (None :: Dimensions option))
                        / real (referenceWidth film_scan_large (Some film_scan))))
    \<and> mp_centerY p = Fin (225 / (effective 300 (map_option height (None :: Dimensions option))
                        / real (referenceHeight film_scan_large (Some film_scan))))
    \<and> mp_x p = Fin (clampOrigin
                  (300 / (effective 400 (map_option width (None :: Dimensions option))
                           / real (referenceWidth film_scan_large (Some film_scan))))
                  (effective 400 (map_option width (None :: Dimensions option)) / effective 0.5 None)
                  (real (referenceWidth film_scan_large (Some film_scan)))
                * rescale_x film_scan_large (Some film_scan))
    \<and> mp_y p = Fin (clampOrigin
                  (225 / (effective 300 (map_option height (None :: Dimensions option))
                           / real (referenceHeight film_scan_large (Some film_scan))))
                  (effective 400 (map_option height (None :: Dimensions option)) / effective 0.5 None)
                  (real (referenceHeight film_scan_large (Some film_scan)))
                * rescale_y film_scan_large (Some film_scan))
    \<and> mp_scaleX p = Fin (effective 0.5 None / rescale_x film_scan_large (Some film_scan))
    \<and> mp_scaleY p = Fin (effective 0.5 None / rescale_y film_scan_large (Some film_scan))
    \<and> rect_within
          (p\<lparr> mp_x := js_div (mp_x p) (Fin (rescale_x film_scan_large (Some film_scan))),
              mp_y := js_div (mp_y p) (Fin (rescale_y film_scan_large (Some film_scan))) \<rparr>)
          (referenceWidth film_scan_large (Some film_scan))
          (referenceHeight film_scan_large (Some film_scan))
        = (effective 400 (map_option width (None :: Dimensions option)) / effective 0.5 None
             \<le> real (referenceWidth film_scan_large (Some film_scan))
           \<and> effective 400 (map_option height (None :: Dimensions option)) / effective 0.5 None
             \<le> real (referenceHeight film_scan_large (Some film_scan)))" ..
  note c = p [THEN conjunct1] p [THEN conjunct2, THEN conjunct1]
    p [THEN conjunct2, THEN conjunct2, THEN conjunct1]
    p [THEN conjunct2, THEN conjunct2, THEN conjunct2, THEN conjunct1]
    p [THEN conjunct2, THEN conjunct2, THEN conjunct2, THEN conjunct2, THEN conjunct1]
    p [THEN conjunct2, THEN conjunct2, THEN conjunct2, THEN conjunct2, THEN conjunct2,
       THEN conjunct1]
    p [THEN conjunct2, THEN conjunct2, THEN conjunct2, THEN conjunct2, THEN conjunct2,
       THEN conjunct2, THEN conjunct1]
    p [THEN conjunct2, THEN conjunct2, THEN conjunct2, THEN conjunct2, THEN conjunct2,
       THEN conjunct2, THEN conjunct2, THEN conjunct1]
    p [THEN conjunct2, THEN conjunct2, THEN conjunct2, THEN conjunct2, THEN conjunct2,
       THEN conjunct2, THEN conjunct2, THEN conjunct2, THEN conjunct1]
    p [THEN conjunct2, THEN conjunct2, THEN conjunct2, THEN conjunct2, THEN conjunct2,
       THEN conjunct2, THEN conjunct2, THEN conjunct2, THEN conjunct2]
  have q: "mp_sourceWidth p = Fin 800" "mp_sourceHeight p = Fin 800"
    "mp_centerX p = Fin 1500" "mp_centerY p = Fin 1125"
    "mp_x p = Fin 2200" "mp_y p = Fin 1400"
    "mp_scaleX p = Fin 0.25" "mp_scaleY p = Fin 0.25"
    unfolding c(2-9) by (simp_all add: v clampOrigin_def)
  have r: "rect_within (p\<lparr> mp_x := js_div (mp_x p) (Fin 2), mp_y := js_div (mp_y p) (Fin 2) \<rparr>)
              2000 1500"
    using c(10) by (simp add: v)
  show ?thesis by (intro conjI exI [of _ p] h c(1) q r)
qed

text \<open>
  C2 as stated fails where it promises a clamped rectangle: with all three inputs
  missing the sampled region is 800 by 800 and does not fit a 600 by 400 image.
\<close>

theorem defaults_leave_small_image_unclamped:
  "getMagnifyParams (Some \<lparr> img_handle = 1, img_width = 600, img_height = 400 \<rparr>) None
      \<lparr> pos_x = Fin 200, pos_y = Fin 150 \<rparr> None None None
    = Some \<lparr> mp_x = Fin 0, mp_y = Fin 0, mp_scaleX = Fin 0.5, mp_scaleY = Fin 0.5,
             mp_sourceWidth = Fin 800, mp_sourceHeight = Fin 800,
             mp_centerX = Fin 300, mp_centerY = Fin 200 \<rparr>
   \<and> rect_within \<lparr> mp_x = Fin 0, mp_y = Fin 0, mp_scaleX = Fin 0.5, mp_scaleY = Fin 0.5,
             mp_sourceWidth = Fin 800, mp_sourceHeight = Fin 800,
             mp_centerX = Fin 300, mp_centerY = Fin 200 \<rparr> 600 400 = False"
  by (simp add: getMagnifyParams_def Let_def or_default_def js_or_def rect_within_def)

subsection \<open>Images of different resolutions\<close>

lemma relative_origin:
  assumes sz: "or_default zoomScale (Fin 0.5) = Fin z" and z0: "z \<noteq> 0"
    and ssw: "or_default (map_option width stageDimensions) (Fin 400) = Fin sw" and sw0: "sw \<noteq> 0"
    and ssh: "or_default (map_option height stageDimensions) (Fin 300) = Fin sh" and sh0: "sh \<noteq> 0"
    and smw: "or_default (map_option width magDimensions) (Fin 400) = Fin mw"
    and smh: "or_default (map_option height magDimensions) (Fin 400) = Fin mh"
    and rw: "0 < img_width r" and rh: "0 < img_height r"
    and iw: "0 < img_width a" and ih: "0 < img_height a"
    and c: "same_object_same_size a r"
  shows "\<exists>p. getMagnifyParams (Some a) (Some r) \<lparr> pos_x = Fin px, pos_y = Fin py \<rparr>
                stageDimensions magDimensions zoomScale = Some p
           \<and> js_div (mp_x p) (Fin (real (img_width a)))
               = Fin (clampOrigin (px / (sw / real (img_width r))) (mw / z) (real (img_width r))
                        / real (img_width r))
           \<and> js_div (mp_y p) (Fin (real (img_height a)))
               = Fin (clampOrigin (py / (sh / real (img_height r))) (mh / z) (real (img_height r))
                        / real (img_height r))"
proof (cases "img_handle a = img_handle r")
  case True
  with c have ar: "a = r" by (simp add: same_object_same_size_def)
  have nr: "no_rescale r (Some r)" by (simp add: no_rescale_def)
  have e: "real (img_width r) = real (referenceWidth r (Some r))"
    "real (img_height r) = real (referenceHeight r (Some r))"
    by (simp_all add: referenceWidth_def referenceHeight_def)
  note F = getMagnifyParams_finite [OF sz z0 ssw sw0 ssh sh0 smw smh e nr, of px py]
  show ?thesis
    unfolding ar F using rw rh by simp
next
  case False
  have nz: "real (img_width r) \<noteq> 0" "real (img_height r) \<noteq> 0"
    "real (img_width a) \<noteq> 0" "real (img_height a) \<noteq> 0"
    using rw rh iw ih by simp_all
  note F = getMagnifyParams_finite_rescale
      [OF sz z0 ssw sw0 ssh sh0 smw smh refl nz(1) refl nz(2) refl nz(3) refl nz(4) False, of px py]
  show ?thesis
    unfolding F using nz by simp
qed

text \<open>
  C6. Two images \<open>a\<close> and \<open>b\<close> are magnified against the same reference image \<open>r\<close>, with the
  same pointer position, stage, output size and zoom (each absent or finite); all three
  images have positive dimensions. Then the two results have the same relative origin:
  \<open>x / width\<close> and \<open>y / height\<close> agree. In exact arithmetic they are equal.
\<close>

theorem relative_region_independent_of_resolution:
  assumes "0 < img_width r" and "0 < img_height r"
    and "0 < img_width a" and "0 < img_height a"
    and "0 < img_width b" and "0 < img_height b"
    and "same_object_same_size a r" and "same_object_same_size b r"
    and "finite_opt zoomScale" and "finite_dims stageDimensions" and "finite_dims magDimensions"
  shows "\<exists>pa pb qx qy.
           getMagnifyParams (Some a) (Some r) \<lparr> pos_x = Fin px, pos_y = Fin py \<rparr>
             stageDimensions magDimensions zoomScale = Some pa
         \<and> getMagnifyParams (Some b) (Some r) \<lparr> pos_x = Fin px, pos_y = Fin py \<rparr>
             stageDimensions magDimensions zoomScale = Some pb
         \<and> js_div (mp_x pa) (Fin (real (img_width a))) = Fin qx
         \<and> js_div (mp_x pb) (Fin (real (img_width b))) = Fin qx
         \<and> js_div (mp_y pa) (Fin (real (img_height a))) = Fin qy
         \<and> js_div (mp_y pb) (Fin (real (img_height b))) = Fin qy"
proof -
  from or_default_fin [OF assms(9), of "0.5"]
  obtain z where z: "or_default zoomScale (Fin 0.5) = Fin z" "z \<noteq> 0" by auto
  from or_default_width_fin [OF assms(10), of 400]
  obtain sw where sw: "or_default (map_option width stageDimensions) (Fin 400) = Fin sw" "sw \<noteq> 0" by auto
  from or_default_height_fin [OF assms(10), of 300]
  obtain sh where sh: "or_default (map_option height stageDimensions) (Fin 300) = Fin sh" "sh \<noteq> 0" by auto
  from or_default_width_fin [OF assms(11), of 400]
  obtain mw where mw: "or_default (map_option width magDimensions) (Fin 400) = Fin mw" by auto
  from or_default_height_fin [OF assms(11), of 400]
  obtain mh where mh: "or_default (map_option height magDimensions) (Fin 400) = Fin mh" by auto
  note A = relative_origin [OF z sw sh mw mh assms(1,2) assms(3,4) assms(7), of px py]
  note B = relative_origin [OF z sw sh mw mh assms(1,2) assms(5,6) assms(8), of px py]
  from A B show ?thesis by blast
qed

text \<open>A 4000 by 3000 and a 1000 by 750 image against a 2000 by 1500 reference.\<close>

theorem relative_region_witness:
  "0 < img_width film_scan \<and> 0 < img_height film_scan
   \<and> 0 < img_width film_scan_large \<and> 0 < img_height film_scan_large
   \<and> 0 < img_width film_scan_small \<and> 0 < img_height film_scan_small
   \<and> same_object_same_size film_scan_large film_scan
   \<and> same_object_same_size film_scan_small film_scan
   \<and> finite_opt None \<and> finite_dims None
   \<and> (\<exists>pa pb qx qy.
           getMagnifyParams (Some film_scan_large) (Some film_scan)
             \<lparr> pos_x = Fin 200, pos_y = Fin 150 \<rparr> None None None = Some pa
         \<and> getMagnifyParams (Some film_scan_small) (Some film_scan)
             \<lparr> pos_x = Fin 200, pos_y = Fin 150 \<rparr> None None None = Some pb
         \<and> js_div (mp_x pa) (Fin (real (img_width film_scan_large))) = Fin qx
         \<and> js_div (mp_x pb) (Fin (real (img_width film_scan_small))) = Fin qx
         \<and> js_div (mp_y pa) (Fin (real (img_height film_scan_large))) = Fin qy
         \<and> js_div (mp_y pb) (Fin (real (img_height film_scan_small))) = Fin qy)"
proof -
  have h: "0 < img_width film_scan" "0 < img_height film_scan"
    "0 < img_width film_scan_large" "0 < img_height film_scan_large"
    "0 < img_width film_scan_small" "0 < img_height film_scan_small"
    "same_object_same_size film_scan_large film_scan"
    "same_object_same_size film_scan_small film_scan"
    "finite_opt None" "finite_dims None"
    by (simp_all add: film_scan_def film_scan_large_def film_scan_small_def
        same_object_same_size_def finite_opt_def finite_dims_def)
  from relative_region_independent_of_resolution [OF h(1-9) h(10) h(10), of 200 150] h
  show ?thesis by blast
qed

subsection \<open>Zero-valued inputs\<close>

lemma magnify_divisors_nonzero:
  assumes sz: "or_default zoomScale (Fin 0.5) = Fin z" and z0: "z \<noteq> 0"
    and ssw: "or_default (map_option width stageDimensions) (Fin 400) = Fin sw" and sw0: "sw \<noteq> 0"
    and ssh: "or_default (map_option height stageDimensions) (Fin 300) = Fin sh" and sh0: "sh \<noteq> 0"
    and rw: "0 < referenceWidth img referenceImage"
    and rh: "0 < referenceHeight img referenceImage"
    and ii: "no_rescale img referenceImage \<or> (0 < img_width img \<and> 0 < img_height img)"
  shows "list_all nonzero_fin (magnify_divisors img referenceImage stageDimensions magDimensions zoomScale)"
proof (cases referenceImage)
  case None
  with sz z0 ssw sw0 ssh sh0 rw rh show ?thesis
    by (simp add: magnify_divisors_def Let_def referenceWidth_def referenceHeight_def)
next
  case (Some r)
  with rw rh have r: "0 < img_width r" "0 < img_height r"
    by (simp_all add: referenceWidth_def referenceHeight_def)
  show ?thesis
  proof (cases "img_handle img = img_handle r")
    case True
    with Some sz z0 ssw sw0 ssh sh0 r show ?thesis
      by (simp add: magnify_divisors_def Let_def)
  next
    case False
    with ii Some have "0 < img_width img" "0 < img_height img"
      by (simp_all add: no_rescale_def)
    with False Some sz z0 ssw sw0 ssh sh0 r show ?thesis
      by (simp add: magnify_divisors_def Let_def)
  qed
qed

lemma magnify_result_finite:
  assumes sz: "or_default zoomScale (Fin 0.5) = Fin z" and z0: "z \<noteq> 0"
    and ssw: "or_default (map_option width stageDimensions) (Fin 400) = Fin sw" and sw0: "sw \<noteq> 0"
    and ssh: "or_default (map_option height stageDimensions) (Fin 300) = Fin sh" and sh0: "sh \<noteq> 0"
    and smw: "or_default (map_option width magDimensions) (Fin 400) = Fin mw"
    and smh: "or_default (map_option height magDimensions) (Fin 400) = Fin mh"
    and rw: "0 < referenceWidth img referenceImage"
    and rh: "0 < referenceHeight img referenceImage"
    and ii: "no_rescale img referenceImage \<or> (0 < img_width img \<and> 0 < img_height img)"
  shows "\<exists>p. getMagnifyParams (Some img) referenceImage \<lparr> pos_x = Fin px, pos_y = Fin py \<rparr>
                stageDimensions magDimensions zoomScale = Some p \<and> fin_params p"
proof (cases "no_rescale img referenceImage")
  case True
  note F = getMagnifyParams_finite [OF sz z0 ssw sw0 ssh sh0 smw smh refl refl True, of px py]
  show ?thesis unfolding F by (simp add: fin_params_def)
next
  case False
  then obtain r where r: "referenceImage = Some r" "img_handle img \<noteq> img_handle r"
    by (auto simp: no_rescale_def split: option.splits)
  from ii False have i: "0 < img_width img" "0 < img_height img" by simp_all
  have nz: "real (img_width r) \<noteq> 0" "real (img_height r) \<noteq> 0"
    "real (img_width img) \<noteq> 0" "real (img_height img) \<noteq> 0"
    using rw rh i r(1) by (simp_all add: referenceWidth_def referenceHeight_def)
  note F = getMagnifyParams_finite_rescale
      [OF sz z0 ssw sw0 ssh sh0 smw smh refl nz(1) refl nz(2) refl nz(3) refl nz(4) r(2), of px py]
  show ?thesis unfolding r(1) F by (simp add: fin_params_def)
qed

text \<open>
  C10. A zoom of zero gives the result of zoom 0.5, a stage width or height of zero that
  of 400 or 300, an output width or height of zero that of 400. When the reference
  dimensions are positive (and, where the magnified image is another image than the
  reference image, its dimensions too) and zoom, stage and output size are absent or
  finite (zero included), no divisor of the function is zero and every field of the
  result is finite, for every pointer position.
\<close>

theorem zero_inputs_take_defaults_without_division_by_zero:
  "getMagnifyParams imageArg referenceImage pos stageDimensions magDimensions (Some (Fin 0))
     = getMagnifyParams imageArg referenceImage pos stageDimensions magDimensions (Some (Fin 0.5))
   \<and> getMagnifyParams imageArg referenceImage pos (Some \<lparr> width = Fin 0, height = sh \<rparr>)
        magDimensions zoomScale
     = getMagnifyParams imageArg referenceImage pos (Some \<lparr> width = Fin 400, height = sh \<rparr>)
        magDimensions zoomScale
   \<and> getMagnifyParams imageArg referenceImage pos (Some \<lparr> width = sw, height = Fin 0 \<rparr>)
        magDimensions zoomScale
     = getMagnifyParams imageArg referenceImage pos (Some \<lparr> width = sw, height = Fin 300 \<rparr>)
        magDimensions zoomScale
   \<and> getMagnifyParams imageArg referenceImage pos stageDimensions
        (Some \<lparr> width = Fin 0, height = mh \<rparr>) zoomScale
     = getMagnifyParams imageArg referenceImage pos stageDimensions
        (Some \<lparr> width = Fin 400, height = mh \<rparr>) zoomScale
   \<and> getMagnifyParams imageArg referenceImage pos stageDimensions
        (Some \<lparr> width = mw, height = Fin 0 \<rparr>) zoomScale
     = getMagnifyParams imageArg referenceImage pos stageDimensions
        (Some \<lparr> width = mw, height = Fin 400 \<rparr>) zoomScale
   \<and> (0 < referenceWidth img referenceImage \<and> 0 < referenceHeight img referenceImage
        \<and> (no_rescale img referenceImage \<or> (0 < img_width img \<and> 0 < img_height img))
        \<and> finite_opt zoomScale \<and> finite_dims stageDimensions \<and> finite_dims magDimensions \<longrightarrow>
       list_all nonzero_fin
         (magnify_divisors img referenceImage stageDimensions magDimensions zoomScale)
       \<and> (\<exists>p. getMagnifyParams (Some img) referenceImage \<lparr> pos_x = Fin px, pos_y = Fin py \<rparr>
                  stageDimensions magDimensions zoomScale = Some p \<and> fin_params p))"
proof (intro conjI impI)
  show "getMagnifyParams imageArg referenceImage pos stageDimensions magDimensions (Some (Fin 0))
     = getMagnifyParams imageArg referenceImage pos stageDimensions magDimensions (Some (Fin 0.5))"
    by (simp only: getMagnifyParams_def or_default_zero or_default_same option.map Dimensions.simps)
  show "getMagnifyParams imageArg referenceImage pos (Some \<lparr> width = Fin 0, height = sh \<rparr>)
        magDimensions zoomScale
     = getMagnifyParams imageArg referenceImage pos (Some \<lparr> width = Fin 400, height = sh \<rparr>)
        magDimensions zoomScale"
    by (simp only: getMagnifyParams_def or_default_zero or_default_same option.map Dimensions.simps)
  show "getMagnifyParams imageArg referenceImage pos (Some \<lparr> width = sw, height = Fin 0 \<rparr>)
        magDimensions zoomScale
     = getMagnifyParams imageArg referenceImage pos (Some \<lparr> width = sw, height = Fin 300 \<rparr>)
        magDimensions zoomScale"
    by (simp only: getMagnifyParams_def or_default_zero or_default_same option.map Dimensions.simps)
  show "getMagnifyParams imageArg referenceImage pos stageDimensions
        (Some \<lparr> width = Fin 0, height = mh \<rparr>) zoomScale
     = getMagnifyParams imageArg referenceImage pos stageDimensions
        (Some \<lparr> width = Fin 400, height = mh \<rparr>) zoomScale"
    by (simp only: getMagnifyParams_def or_default_zero or_default_same option.map Dimensions.simps)
  show "getMagnifyParams imageArg referenceImage pos stageDimensions
        (Some \<lparr> width = mw, height = Fin 0 \<rparr>) zoomScale
     = getMagnifyParams imageArg referenceImage pos stageDimensions
        (Some \<lparr> width = mw, height = Fin 400 \<rparr>) zoomScale"
    by (simp only: getMagnifyParams_def or_default_zero or_default_same option.map Dimensions.simps)
next
  assume H: "0 < referenceWidth img referenceImage \<and> 0 < referenceHeight img referenceImage
        \<and> (no_rescale img referenceImage \<or> (0 < img_width img \<and> 0 < img_height img))
        \<and> finite_opt zoomScale \<and> finite_dims stageDimensions \<and> finite_dims magDimensions"
  then have fz: "finite_opt zoomScale" and fs: "finite_dims stageDimensions"
    and fm: "finite_dims magDimensions" by simp_all
  from or_default_fin [OF fz, of "0.5"]
  obtain z where z: "or_default zoomScale (Fin 0.5) = Fin z" "z \<noteq> 0" by auto
  from or_default_width_fin [OF fs, of 400]
  obtain sw where sw: "or_default (map_option width stageDimensions) (Fin 400) = Fin sw" "sw \<noteq> 0" by auto
  from or_default_height_fin [OF fs, of 300]
  obtain sh where sh: "or_default (map_option height stageDimensions) (Fin 300) = Fin sh" "sh \<noteq> 0" by auto
  from or_default_width_fin [OF fm, of 400]
  obtain mw where mw: "or_default (map_option width magDimensions) (Fin 400) = Fin mw" by auto
  from or_default_height_fin [OF fm, of 400]
  obtain mh where mh: "or_default (map_option height magDimensions) (Fin 400) = Fin mh" by auto
  from H have d: "0 < referenceWidth img referenceImage" "0 < referenceHeight img referenceImage"
    "no_rescale img referenceImage \<or> (0 < img_width img \<and> 0 < img_height img)" by simp_all
  show "list_all nonzero_fin
         (magnify_divisors img referenceImage stageDimensions magDimensions zoomScale)"
    by (rule magnify_divisors_nonzero [OF z sw sh d])
  show "\<exists>p. getMagnifyParams (Some img) referenceImage \<lparr> pos_x = Fin px, pos_y = Fin py \<rparr>
                  stageDimensions magDimensions zoomScale = Some p \<and> fin_params p"
    by (rule magnify_result_finite [OF z sw sh mw mh d])
qed

text \<open>Zoom, stage and output size all zero, on a 2000 by 1500 image.\<close>

theorem zero_inputs_witness:
  "0 < referenceWidth film_scan None \<and> 0 < referenceHeight film_scan None
   \<and> no_rescale film_scan None
   \<and> finite_opt (Some (Fin 0)) \<and> finite_dims (Some \<lparr> width = Fin 0, height = Fin 0 \<rparr>)
   \<and> list_all nonzero_fin
        (magnify_divisors film_scan None (Some \<lparr> width = Fin 0, height = Fin 0 \<rparr>)
           (Some \<lparr> width = Fin 0, height = Fin 0 \<rparr>) (Some (Fin 0)))
   \<and> (\<exists>p. getMagnifyParams (Some film_scan) None \<lparr> pos_x = Fin 200, pos_y = Fin 150 \<rparr>
              (Some \<lparr> width = Fin 0, height = Fin 0 \<rparr>) (Some \<lparr> width = Fin 0, height = Fin 0 \<rparr>)
              (Some (Fin 0)) = Some p \<and> fin_params p)"
proof -
  have h: "0 < referenceWidth film_scan None" "0 < referenceHeight film_scan None"
    "no_rescale film_scan None"
    "finite_opt (Some (Fin 0))" "finite_dims (Some \<lparr> width = Fin 0, height = Fin 0 \<rparr>)"
    by (simp_all add: film_scan_def referenceWidth_def referenceHeight_def finite_opt_def
        finite_dims_def no_rescale_def)
  from zero_inputs_take_defaults_without_division_by_zero
          [where img = film_scan and referenceImage = None and zoomScale = "Some (Fin 0)"
             and stageDimensions = "Some \<lparr> width = Fin 0, height = Fin 0 \<rparr>"
             and magDimensions = "Some \<lparr> width = Fin 0, height = Fin 0 \<rparr>"
             and px = 200 and py = 150] h
  show ?thesis by blast
qed

section \<open>The resize recomputation\<close>

lemma ratio_bounds:
  fixes cw iw ih h :: real
  assumes "0 < cw" and "0 < iw" and "h \<le> cw * ih / iw" and "cw * ih / iw < h + 1"
  shows "ih / iw - 1 / cw < h / cw" and "h / cw \<le> ih / iw"
proof -
  from assms(3) have a: "h * iw \<le> cw * ih" using assms(2) by (simp add: pos_le_divide_eq)
  from assms(4) have b: "cw * ih < (h + 1) * iw" using assms(2) by (simp add: pos_divide_less_eq)
  show "h / cw \<le> ih / iw" using a assms(1,2) by (simp add: field_simps)
  have c: "cw * (cw * ih) < cw * ((h + 1) * iw)"
    using b assms(1) by (rule mult_strict_left_mono)
  show "ih / iw - 1 / cw < h / cw" using c assms(1,2) by (simp add: field_simps)
qed

lemma floor_ratio_bounds:
  fixes cw iw ih :: real
  assumes "0 < cw" and "0 < iw" and "0 < ih"
  shows "ih / iw - 1 / cw < of_int \<lfloor>cw * ih / iw\<rfloor> / cw"
    and "of_int \<lfloor>cw * ih / iw\<rfloor> / cw \<le> ih / iw"
proof -
  let ?h = "of_int \<lfloor>cw * ih / iw\<rfloor> :: real"
  have lo: "?h \<le> cw * ih / iw" by (rule of_int_floor_le)
  have hi: "cw * ih / iw < ?h + 1" by linarith
  show "ih / iw - 1 / cw < ?h / cw" by (rule ratio_bounds(1) [OF assms(1,2) lo hi])
  show "?h / cw \<le> ih / iw" by (rule ratio_bounds(2) [OF assms(1,2) lo hi])
qed

text \<open>
  C8, as the code has it. For a positive container width \<open>cw\<close> and an image of positive
  dimensions \<open>iw \<times> ih\<close>, the stage width becomes \<open>cw\<close> and the stage height becomes
  \<open>cw * ih / iw\<close> rounded down to a whole pixel, or 300 when that is zero, which is the
  case exactly when \<open>cw * ih < iw\<close>. The rounded height keeps the aspect ratio up to one
  pixel: \<open>ih / iw - 1 / cw < \<lfloor>cw * ih / iw\<rfloor> / cw \<le> ih / iw\<close>.
\<close>

theorem resize_keeps_aspect_ratio_up_to_floor:
  assumes "0 < cw" and "0 < iw" and "0 < ih"
    and "home_stageRef s = Some \<lparr> offsetWidth = cw \<rparr>"
    and "home_imageDimensions s = Some \<lparr> width = Fin iw, height = Fin ih \<rparr>"
  shows "home_stageDimensions (updateDimensions s)
           = \<lparr> width = Fin (of_int cw),
               height = Fin (if \<lfloor>of_int cw * ih / iw\<rfloor> = 0 then 300
                             else of_int \<lfloor>of_int cw * ih / iw\<rfloor>) \<rparr>
         \<and> (\<lfloor>of_int cw * ih / iw\<rfloor> = 0) = (of_int cw * ih < iw)
         \<and> ih / iw - 1 / of_int cw < of_int \<lfloor>of_int cw * ih / iw\<rfloor> / of_int cw
         \<and> of_int \<lfloor>of_int cw * ih / iw\<rfloor> / of_int cw \<le> ih / iw"
proof -
  have c: "(0::real) < of_int cw" using assms(1) by simp
  have p: "0 \<le> of_int cw * ih / iw" using c assms(2,3) by simp
  have z: "(\<lfloor>of_int cw * ih / iw\<rfloor> = 0) = (of_int cw * ih < iw)"
    using p assms(2) by (simp add: floor_eq_iff)
  have d: "home_stageDimensions (updateDimensions s)
           = \<lparr> width = Fin (of_int cw),
               height = Fin (if \<lfloor>of_int cw * ih / iw\<rfloor> = 0 then 300
                             else of_int \<lfloor>of_int cw * ih / iw\<rfloor>) \<rparr>"
    using assms by (simp add: updateDimensions_def js_or_def)
  from d z floor_ratio_bounds [OF c assms(2,3)] show ?thesis by blast
qed

text \<open>A container 500 wide and a 600 by 400 image.\<close>

theorem resize_witness:
  "(0::int) < 500 \<and> (0::real) < 600 \<and> (0::real) < 400
   \<and> home_stageDimensions
        (updateDimensions \<lparr> home_stageRef = Some \<lparr> offsetWidth = 500 \<rparr>,
                            home_imageDimensions = Some \<lparr> width = Fin 600, height = Fin 400 \<rparr>,
                            home_stageDimensions = \<lparr> width = Fin 400, height = Fin 300 \<rparr> \<rparr>)
       = \<lparr> width = Fin 500, height = Fin (of_int \<lfloor>500 * 400 / 600 :: real\<rfloor>) \<rparr>
   \<and> (400 / 600 - 1 / 500 :: real) < of_int \<lfloor>500 * 400 / 600 :: real\<rfloor> / 500
   \<and> (of_int \<lfloor>500 * 400 / 600 :: real\<rfloor> / 500 :: real) \<le> 400 / 600"
proof -
  have f: "\<lfloor>(500 * 400 / 600 :: real)\<rfloor> = 333" by (simp add: floor_eq_iff)
  from resize_keeps_aspect_ratio_up_to_floor
         [of 500 600 400 "\<lparr> home_stageRef = Some \<lparr> offsetWidth = 500 \<rparr>,
                            home_imageDimensions = Some \<lparr> width = Fin 600, height = Fin 400 \<rparr>,
                            home_stageDimensions = \<lparr> width = Fin 400, height = Fin 300 \<rparr> \<rparr>"]
  show ?thesis by (simp add: f)
qed

text \<open>
  C8 as stated fails: there the height is 333 and \<open>333 / 500\<close> is not \<open>400 / 600\<close>.
\<close>

theorem resize_height_is_rounded_down:
  "updateDimensions \<lparr> home_stageRef = Some \<lparr> offsetWidth = 500 \<rparr>,
                      home_imageDimensions = Some \<lparr> width = Fin 600, height = Fin 400 \<rparr>,
                      home_stageDimensions = \<lparr> width = Fin 400, height = Fin 300 \<rparr> \<rparr>
     = \<lparr> home_stageRef = Some \<lparr> offsetWidth = 500 \<rparr>,
         home_imageDimensions = Some \<lparr> width = Fin 600, height = Fin 400 \<rparr>,
         home_stageDimensions = \<lparr> width = Fin 500, height = Fin 333 \<rparr> \<rparr>
   \<and> js_div (Fin 333) (Fin 500) \<noteq> js_div (Fin 400) (Fin 600)"
proof -
  have "\<lfloor>(500 * 400 / 600 :: real)\<rfloor> = 333" by (simp add: floor_eq_iff)
  then show ?thesis by (simp add: updateDimensions_def js_or_def)
qed

section \<open>Teardown of the AR session\<close>

lemma logDebug_text_fields [simp]:
  "isARSupported (logDebug_text l s) = isARSupported s"
  "arSessionActive (logDebug_text l s) = arSessionActive s"
  "canvasRef (logDebug_text l s) = canvasRef s"
  "xrSessionRef (logDebug_text l s) = xrSessionRef s"
  "frameRef (logDebug_text l s) = frameRef s"
  "hitTestSourceRef (logDebug_text l s) = hitTestSourceRef s"
  "parentElement (logDebug_text l s) = parentElement s"
  "calls (logDebug_text l s) = calls s"
  by (simp_all add: logDebug_text_def Let_def split: option.splits)

lemma call_fields [simp]:
  "isARSupported (call c s) = isARSupported s"
  "arSessionActive (call c s) = arSessionActive s"
  "canvasRef (call c s) = canvasRef s"
  "xrSessionRef (call c s) = xrSessionRef s"
  "frameRef (call c s) = frameRef s"
  "hitTestSourceRef (call c s) = hitTestSourceRef s"
  "parentElement (call c s) = parentElement s"
  "calls (call c s) = calls s @ [c]"
  by (simp_all add: call_def)

lemma teardown_session_eq: "teardown_session s = Inr (after_session s)"
  by (cases "xrSessionRef s")
     (simp_all add: teardown_session_def after_session_def session_end_def and_then_def)

lemma teardown_frame_eq: "teardown_frame s = Inr (after_frame s)"
  by (cases "frameRef s") (simp_all add: teardown_frame_def after_frame_def)

lemma teardown_canvas_eq: "teardown_canvas s = Inr (after_canvas s)"
  by (simp add: teardown_canvas_def after_canvas_def canvas_parentElement_def removeChild_def
      and_then_def split: option.splits)

lemma teardown_hit_test_eq: "teardown_hit_test s = Inr (after_hit_test s)"
  by (cases "hitTestSourceRef s")
     (simp_all add: teardown_hit_test_def after_hit_test_def hit_test_source_cancel_def and_then_def)

lemma endARSession_eq:
  "endARSession s =
     Inr ((after_hit_test (after_canvas (after_frame (after_session s))))\<lparr> arSessionActive := False \<rparr>)"
  by (simp add: endARSession_def teardown_session_eq teardown_frame_eq teardown_canvas_eq
      teardown_hit_test_eq and_then_def)

lemma after_session_fields [simp]:
  "xrSessionRef (after_session s) = None"
  "frameRef (after_session s) = frameRef s"
  "canvasRef (after_session s) = canvasRef s"
  "hitTestSourceRef (after_session s) = hitTestSourceRef s"
  "parentElement (after_session s) = parentElement s"
  by (simp_all add: after_session_def split: option.splits)

lemma after_frame_fields [simp]:
  "xrSessionRef (after_frame s) = xrSessionRef s"
  "frameRef (after_frame s) = None"
  "canvasRef (after_frame s) = canvasRef s"
  "hitTestSourceRef (after_frame s) = hitTestSourceRef s"
  "parentElement (after_frame s) = parentElement s"
  by (simp_all add: after_frame_def split: option.splits)

lemma after_canvas_fields [simp]:
  "xrSessionRef (after_canvas s) = xrSessionRef s"
  "frameRef (after_canvas s) = frameRef s"
  "hitTestSourceRef (after_canvas s) = hitTestSourceRef s"
  by (simp_all add: after_canvas_def split: option.splits)

lemma after_canvas_parent [simp]: "canvas_parentElement (after_canvas s) = None"
  by (simp add: after_canvas_def canvas_parentElement_def split: option.splits)

lemma after_canvas_attached: "canvas_attached s \<Longrightarrow> canvasRef (after_canvas s) = None"
  by (auto simp: after_canvas_def canvas_attached_def split: option.splits)

lemma after_hit_test_fields [simp]:
  "xrSessionRef (after_hit_test s) = xrSessionRef s"
  "frameRef (after_hit_test s) = frameRef s"
  "canvasRef (after_hit_test s) = canvasRef s"
  "parentElement (after_hit_test s) = parentElement s"
  "holds_no_source (hitTestSourceRef (after_hit_test s))"
  by (simp_all add: after_hit_test_def holds_no_source_def split: nullish.splits)

lemma after_hit_test_Null:
  "hitTestSourceRef s \<noteq> Undefined \<Longrightarrow> hitTestSourceRef (after_hit_test s) = Null"
  by (simp add: after_hit_test_def split: nullish.splits)

lemma after_session_idle: "xrSessionRef s = None \<Longrightarrow> after_session s = s"
  by (simp add: after_session_def)

lemma after_frame_idle: "frameRef s = None \<Longrightarrow> after_frame s = s"
  by (simp add: after_frame_def)

lemma after_canvas_idle: "canvas_parentElement s = None \<Longrightarrow> after_canvas s = s"
  by (simp add: after_canvas_def canvas_parentElement_def split: option.splits)

lemma after_hit_test_idle: "holds_no_source (hitTestSourceRef s) \<Longrightarrow> after_hit_test s = s"
  by (simp add: after_hit_test_def holds_no_source_def split: nullish.splits)

lemma canvas_parentElement_cong:
  "canvasRef t = canvasRef s \<Longrightarrow> parentElement t = parentElement s \<Longrightarrow>
   canvas_parentElement t = canvas_parentElement s"
  by (simp add: canvas_parentElement_def split: option.splits)

lemma ended_state_idle:
  assumes "xrSessionRef s = None" and "frameRef s = None" and "canvas_parentElement s = None"
    and "holds_no_source (hitTestSourceRef s)" and "\<not> arSessionActive s"
  shows "endARSession s = Inr s"
proof -
  have "after_hit_test (after_canvas (after_frame (after_session s))) = s"
    using assms by (simp add: after_session_idle after_frame_idle after_canvas_idle after_hit_test_idle)
  moreover have "s\<lparr> arSessionActive := False \<rparr> = s" using assms(5) by simp
  ultimately show ?thesis by (simp add: endARSession_eq)
qed

lemma endARSession_releases:
  "\<exists>s'. endARSession s = Inr s' \<and> endARSession s' = Inr s'
        \<and> xrSessionRef s' = None \<and> frameRef s' = None
        \<and> holds_no_source (hitTestSourceRef s')
        \<and> (hitTestSourceRef s \<noteq> Undefined \<longrightarrow> hitTestSourceRef s' = Null)
        \<and> (canvas_attached s \<longrightarrow> canvasRef s' = None)
        \<and> \<not> arSessionActive s'"
proof -
  let ?t = "after_canvas (after_frame (after_session s))"
  let ?s' = "(after_hit_test ?t)\<lparr> arSessionActive := False \<rparr>"
  have e: "endARSession s = Inr ?s'" by (rule endARSession_eq)
  have x: "xrSessionRef ?s' = None" and f: "frameRef ?s' = None"
    and h: "holds_no_source (hitTestSourceRef ?s')" and a: "\<not> arSessionActive ?s'"
    by simp_all
  have p: "canvas_parentElement ?s' = None"
  proof -
    have "canvas_parentElement ?s' = canvas_parentElement ?t"
      by (rule canvas_parentElement_cong) simp_all
    then show ?thesis by simp
  qed
  have i: "endARSession ?s' = Inr ?s'" by (rule ended_state_idle [OF x f p h a])
  have n: "hitTestSourceRef s \<noteq> Undefined \<longrightarrow> hitTestSourceRef ?s' = Null"
    by (simp add: after_hit_test_Null)
  have c: "canvas_attached s \<longrightarrow> canvasRef ?s' = None"
  proof
    assume "canvas_attached s"
    then have "canvas_attached (after_frame (after_session s))"
      by (simp add: canvas_attached_def split: option.splits)
    then show "canvasRef ?s' = None" by (simp add: after_canvas_attached)
  qed
  from e i x f h n c a show ?thesis by blast
qed

text \<open>The page keeps the canvas it holds attached: a teardown leaves it so.\<close>

lemma canvas_attached_endARSession:
  assumes "canvas_attached s" and "endARSession s = Inr s'"
  shows "canvas_attached s'"
proof -
  from endARSession_releases [of s] assms have "canvasRef s' = None" by auto
  then show ?thesis by (simp add: canvas_attached_def)
qed

text \<open>
  C3. The states of the page are those in which the canvas that \<^verbatim>\<open>canvasRef\<close> holds, if
  any, is attached to a parent: the reference is assigned only at line 210, right after
  the canvas is appended to the document body, and at line 80, and teardown and launch
  keep it so (lemmas \<open>canvas_attached_endARSession\<close> and \<open>canvas_attached_launchAR\<close>). From
  every such state, whichever of the session, the frame id, the canvas and the hit-test
  source it holds, \<^verbatim>\<open>endARSession\<close> returns without an error, and a second call right after
  it returns without an error and changes nothing. After it none of the four references
  holds a handle (the first three are \<^verbatim>\<open>null\<close>; the hit-test reference is \<^verbatim>\<open>null\<close>, or its
  initial \<^verbatim>\<open>undefined\<close> where no source was ever stored), and the session is marked
  inactive.
\<close>

theorem teardown_idempotent_and_releases_handles:
  assumes "canvas_attached s"
  shows "\<exists>s'. endARSession s = Inr s' \<and> endARSession s' = Inr s'
        \<and> xrSessionRef s' = None \<and> frameRef s' = None \<and> canvasRef s' = None
        \<and> holds_no_source (hitTestSourceRef s')
        \<and> \<not> arSessionActive s'"
  using endARSession_releases [of s] assms by blast

text \<open>A session with an attached canvas and a hit-test source, and no frame requested yet.\<close>

theorem teardown_witness:
  "canvas_attached attached_canvas_state
   \<and> (\<exists>s'. endARSession attached_canvas_state = Inr s' \<and> endARSession s' = Inr s'
        \<and> xrSessionRef s' = None \<and> frameRef s' = None \<and> canvasRef s' = None
        \<and> holds_no_source (hitTestSourceRef s') \<and> \<not> arSessionActive s')"
proof -
  have c: "canvas_attached attached_canvas_state"
    by (simp add: canvas_attached_def attached_canvas_state_def)
  from teardown_idempotent_and_releases_handles [OF c] c
  show ?thesis by blast
qed

text \<open>
  The page before any launch, where nothing was ever acquired: the teardown only marks
  the session inactive, and the hit-test reference keeps its initial \<^verbatim>\<open>undefined\<close>.
\<close>

lemma teardown_of_initial_page:
  "endARSession initial_gallery = Inr initial_gallery"
  by (simp add: endARSession_def teardown_session_def teardown_frame_def teardown_canvas_def
      teardown_hit_test_def and_then_def canvas_parentElement_def initial_gallery_def)

text \<open>
  The assumption is what the guard \<^verbatim>\<open>canvasRef.current?.parentElement\<close> of lines 78 to 81
  turns on: a canvas without a parent, which the page never holds, would stay in the
  reference.
\<close>

lemma detached_canvas_would_stay:
  "canvasRef detached_canvas_state = Some 7
   \<and> parentElement detached_canvas_state 7 = None
   \<and> endARSession detached_canvas_state
     = Inr \<lparr> console = [''ending XRSession''], debugPanel = None, isARSupported = True,
             arSessionActive = False, canvasRef = Some 7, xrSessionRef = None, frameRef = None,
             hitTestSourceRef = Null, parentElement = Map.empty,
             calls = [SessionEnd 1, CancelAnimationFrame 3, HitTestSourceCancel 5] \<rparr>"
  by (simp add: endARSession_def teardown_session_def teardown_frame_def teardown_canvas_def
      teardown_hit_test_def and_then_def session_end_def hit_test_source_cancel_def
      canvas_parentElement_def detached_canvas_state_def logDebug_text_def call_def)

section \<open>Failures during launch\<close>

lemma isl_try_then:
  assumes "\<And>t. isl (f t) = b"
  shows "isl (try_then r f) = (isl r \<or> b)"
  using assms by (cases r) (simp_all add: try_then_def)

lemma result_all_try_then:
  assumes "result_all P r" and "\<And>t. P t \<Longrightarrow> result_all P (f t)"
  shows "result_all P (try_then r f)"
  using assms by (cases r) (auto simp: try_then_def result_all_def)

lemma canvas_attached_logDebug_text [simp]: "canvas_attached (logDebug_text l s) = canvas_attached s"
  by (simp add: canvas_attached_def split: option.splits)

lemma canvas_attached_call [simp]: "canvas_attached (call c s) = canvas_attached s"
  by (simp add: canvas_attached_def split: option.splits)

lemma launch_inv_logDebug_text [simp]: "launch_inv h (logDebug_text l s) = launch_inv h s"
  by (simp add: launch_inv_def)

lemma launch_inv_call [simp]: "launch_inv h (call c s) = launch_inv h s"
  by (simp add: launch_inv_def)

lemma isl_step_camera: "isl (step_camera env s) = (env_getUserMedia env \<noteq> None)"
  by (simp add: step_camera_def Let_def split: option.splits)

lemma isl_step_diag: "isl (step_diag env s) = False"
  by (simp add: step_diag_def)

lemma isl_step_canvas:
  "isl (step_canvas env s) = (env_getContext env = None \<or> env_makeXRCompatible env \<noteq> None)"
  by (simp add: step_canvas_def Let_def split: option.splits)

lemma isl_step_layer:
  "isl (step_layer env s) = (env_newXRWebGLLayer env \<noteq> None \<or> env_updateRenderState env \<noteq> None)"
  by (simp add: step_layer_def split: option.splits)

lemma isl_step_renderer: "isl (step_renderer env s) = (env_newWebGLRenderer env \<noteq> None)"
  by (simp add: step_renderer_def split: option.splits)

lemma isl_step_reference_spaces:
  "isl (step_reference_spaces env s)
     = (isl (env_requestLocalSpace env) \<or> isl (env_requestViewerSpace env))"
  by (simp add: step_reference_spaces_def split: sum.splits)

lemma isl_step_hit_test:
  "isl (step_hit_test env s)
     = (case env_requestHitTestSource env of None \<Rightarrow> True | Some r \<Rightarrow> isl r)"
  by (simp add: step_hit_test_def split: option.splits sum.splits)

lemma isl_step_scene: "isl (step_scene session s) = False"
  by (simp add: step_scene_def)

lemma isl_setup_session:
  "isl (setup_session env session s)
     = (env_getContext env = None \<or> env_makeXRCompatible env \<noteq> None
        \<or> env_newXRWebGLLayer env \<noteq> None \<or> env_updateRenderState env \<noteq> None
        \<or> env_newWebGLRenderer env \<noteq> None
        \<or> isl (env_requestLocalSpace env) \<or> isl (env_requestViewerSpace env)
        \<or> (case env_requestHitTestSource env of None \<Rightarrow> True | Some r \<Rightarrow> isl r))"
  unfolding setup_session_def
  by (subst isl_try_then, (subst isl_try_then)+, rule isl_step_scene)
     (simp_all add: isl_step_diag isl_step_canvas isl_step_layer isl_step_renderer
        isl_step_reference_spaces isl_step_hit_test)

text \<open>The \<^verbatim>\<open>try\<close> block ends in an error exactly when some step fails.\<close>

lemma isl_launch_try: "isl (launch_try env s) = setup_fails env"
proof -
  have f: "\<And>t. isl (let s1 = logDebug_text ''2) requesting XRSession'' t
              in case env_requestSession env of
                   Inl e \<Rightarrow> Inl (e, s1)
                 | Inr session \<Rightarrow>
                     setup_session env session
                       (logDebug_text ''-> XRSession started''
                          (s1\<lparr> xrSessionRef := Some session, arSessionActive := True \<rparr>)))
           = (isl (env_requestSession env)
              \<or> env_getContext env = None \<or> env_makeXRCompatible env \<noteq> None
              \<or> env_newXRWebGLLayer env \<noteq> None \<or> env_updateRenderState env \<noteq> None
              \<or> env_newWebGLRenderer env \<noteq> None
              \<or> isl (env_requestLocalSpace env) \<or> isl (env_requestViewerSpace env)
              \<or> (case env_requestHitTestSource env of None \<Rightarrow> True | Some r \<Rightarrow> isl r))"
    by (cases "env_requestSession env") (simp_all add: Let_def isl_setup_session)
  show ?thesis
    unfolding launch_try_def setup_fails_def
    by (subst isl_try_then, rule f) (simp add: isl_step_camera)
qed

text \<open>While the setup runs, the canvas in \<^verbatim>\<open>canvasRef\<close> is attached and the session is held.\<close>

lemma launch_inv_step_diag: "launch_inv h s \<Longrightarrow> result_all (launch_inv h) (step_diag env s)"
  by (auto simp: step_diag_def result_all_def launch_inv_def appendChild_def canvas_attached_def
      split: option.splits)

lemma launch_inv_step_canvas: "launch_inv h s \<Longrightarrow> result_all (launch_inv h) (step_canvas env s)"
  by (auto simp: step_canvas_def Let_def result_all_def launch_inv_def appendChild_def
      canvas_attached_def split: option.splits)

lemma launch_inv_step_layer: "launch_inv h s \<Longrightarrow> result_all (launch_inv h) (step_layer env s)"
  by (auto simp: step_layer_def result_all_def split: option.splits)

lemma launch_inv_step_renderer: "launch_inv h s \<Longrightarrow> result_all (launch_inv h) (step_renderer env s)"
  by (auto simp: step_renderer_def result_all_def split: option.splits)

lemma launch_inv_step_reference_spaces:
  "launch_inv h s \<Longrightarrow> result_all (launch_inv h) (step_reference_spaces env s)"
  by (auto simp: step_reference_spaces_def result_all_def split: sum.splits)

lemma launch_inv_step_hit_test:
  "launch_inv h s \<Longrightarrow> result_all (launch_inv h) (step_hit_test env s)"
  by (auto simp: step_hit_test_def result_all_def launch_inv_def canvas_attached_def
      split: option.splits sum.splits)

lemma launch_inv_step_scene: "launch_inv h s \<Longrightarrow> result_all (launch_inv h) (step_scene session s)"
  by (simp add: step_scene_def result_all_def)

lemma launch_inv_setup_session:
  assumes "launch_inv h s"
  shows "result_all (launch_inv h) (setup_session env session s)"
  unfolding setup_session_def
  by (intro result_all_try_then launch_inv_step_diag launch_inv_step_canvas launch_inv_step_layer
        launch_inv_step_renderer launch_inv_step_reference_spaces launch_inv_step_hit_test
        launch_inv_step_scene assms)

lemma canvas_attached_step_camera:
  "canvas_attached s \<Longrightarrow> result_all canvas_attached (step_camera env s)"
  by (simp add: step_camera_def Let_def result_all_def split: option.splits)

lemma launch_inv_weaken: "result_all (launch_inv h) r \<Longrightarrow> result_all canvas_attached r"
  by (auto simp: result_all_def launch_inv_def split: sum.splits)

lemma launch_inv_started:
  "canvas_attached t \<Longrightarrow>
   launch_inv session (logDebug_text l (t\<lparr> xrSessionRef := Some session, arSessionActive := True \<rparr>))"
  by (simp add: launch_inv_def canvas_attached_def split: option.splits)

lemma canvas_attached_launch_try:
  assumes "canvas_attached s"
  shows "result_all canvas_attached (launch_try env s)"
  unfolding launch_try_def
proof (rule result_all_try_then [OF canvas_attached_step_camera [OF assms]])
  fix t assume t: "canvas_attached t"
  show "result_all canvas_attached
          (let s1 = logDebug_text ''2) requesting XRSession'' t
           in case env_requestSession env of
                Inl e \<Rightarrow> Inl (e, s1)
              | Inr session \<Rightarrow>
                  setup_session env session
                    (logDebug_text ''-> XRSession started''
                       (s1\<lparr> xrSessionRef := Some session, arSessionActive := True \<rparr>)))"
  proof (cases "env_requestSession env")
    case (Inl e)
    with t show ?thesis by (simp add: Let_def result_all_def)
  next
    case (Inr session)
    have "canvas_attached (logDebug_text ''2) requesting XRSession'' t)" using t by simp
    from launch_inv_weaken [OF launch_inv_setup_session [OF launch_inv_started [OF this]]] Inr
    show ?thesis by (simp add: Let_def)
  qed
qed

lemma session_held_launch_try:
  assumes "env_getUserMedia env = None" and "env_requestSession env = Inr h"
    and "canvas_attached s"
  shows "result_all (launch_inv h) (launch_try env s)"
proof -
  let ?t = "logDebug_text ''-> camera granted''
              (call StopCameraTracks (logDebug_text ''1) requesting camera permission'' s))"
  have c: "step_camera env s = Inr ?t"
    using assms(1) by (simp add: step_camera_def Let_def)
  have "canvas_attached (logDebug_text ''2) requesting XRSession'' ?t)" using assms(3) by simp
  from launch_inv_setup_session [OF launch_inv_started [OF this]]
  show ?thesis
    unfolding launch_try_def c by (simp add: try_then_def Let_def assms(2))
qed

lemma calls_after_frame: "set (calls s) \<subseteq> set (calls (after_frame s))"
  by (auto simp: after_frame_def split: option.splits)

lemma calls_after_canvas: "set (calls s) \<subseteq> set (calls (after_canvas s))"
  by (auto simp: after_canvas_def split: option.splits)

lemma calls_after_hit_test: "set (calls s) \<subseteq> set (calls (after_hit_test s))"
  by (auto simp: after_hit_test_def split: nullish.splits)

lemma calls_after_session: "xrSessionRef s = Some h \<Longrightarrow> SessionEnd h \<in> set (calls (after_session s))"
  by (simp add: after_session_def)

lemma endARSession_ends_session:
  assumes "xrSessionRef t = Some h" and "endARSession t = Inr s'"
  shows "SessionEnd h \<in> set (calls s')"
proof -
  from calls_after_session [OF assms(1)]
  have "SessionEnd h \<in> set (calls (after_hit_test (after_canvas (after_frame (after_session t)))))"
    using calls_after_frame calls_after_canvas calls_after_hit_test by blast
  with assms(2) show ?thesis by (auto simp: endARSession_eq)
qed

lemma launch_start_fields [simp]:
  "isARSupported (launch_start request s) = isARSupported s"
  "canvas_attached (launch_start request s) = canvas_attached s"
  by (simp_all add: launch_start_def canvas_attached_def split: option.splits)

text \<open>A call of \<^verbatim>\<open>logDebug\<close> whose arguments all render returns, with the joined line.\<close>

lemma render_all_console:
  "render_all args = Some texts \<Longrightarrow> map console_text args = texts"
proof (induction args arbitrary: texts)
  case Nil
  then show ?case by simp
next
  case (Cons a args)
  then show ?case
    by (cases a) (auto split: option.splits)
qed

lemma logDebug_rendered:
  assumes "render_all args = Some texts"
  shows "logDebug args s = Inr (logDebug_text (join_space texts) s)"
  using assms render_all_console [OF assms]
  by (simp add: logDebug_def logDebug_text_def Let_def split: option.splits)

lemma logDebug_error:
  assumes "serialisable err"
  shows "\<exists>t. logDebug [Text l, error_value err] s = Inr (logDebug_text (join_space [l, t]) s)"
proof -
  from assms obtain t where "render (error_value err) = Some t"
    by (auto simp: serialisable_def)
  then have "render_all [Text l, error_value err] = Some [l, t]" by simp
  from logDebug_rendered [OF this] show ?thesis by blast
qed

lemma serialisable_TypeError: "serialisable TypeError"
  by (simp add: serialisable_def error_value_def)

text \<open>The error of a step is a \<^verbatim>\<open>TypeError\<close> or one of the errors of the browser.\<close>

lemma raised_by_try_then:
  assumes "raised_by env r" and "\<And>t. raised_by env (f t)"
  shows "raised_by env (try_then r f)"
  using assms by (cases r) (auto simp: try_then_def raised_by_def)

lemma raised_by_step_camera: "raised_by env (step_camera env s)"
  by (simp add: step_camera_def Let_def raised_by_def setup_errors_def split: option.splits)

lemma raised_by_step_diag: "raised_by env (step_diag env s)"
  by (simp add: step_diag_def raised_by_def)

lemma raised_by_step_canvas: "raised_by env (step_canvas env s)"
  by (simp add: step_canvas_def Let_def raised_by_def setup_errors_def split: option.splits)

lemma raised_by_step_layer: "raised_by env (step_layer env s)"
  by (simp add: step_layer_def raised_by_def setup_errors_def split: option.splits)

lemma raised_by_step_renderer: "raised_by env (step_renderer env s)"
  by (simp add: step_renderer_def raised_by_def setup_errors_def split: option.splits)

lemma raised_by_step_reference_spaces: "raised_by env (step_reference_spaces env s)"
  by (simp add: step_reference_spaces_def raised_by_def setup_errors_def split: sum.splits)

lemma raised_by_step_hit_test: "raised_by env (step_hit_test env s)"
  by (simp add: step_hit_test_def raised_by_def setup_errors_def split: option.splits sum.splits)

lemma raised_by_step_scene: "raised_by env (step_scene session s)"
  by (simp add: step_scene_def raised_by_def)

lemma raised_by_setup_session: "raised_by env (setup_session env session s)"
  unfolding setup_session_def
  by (intro raised_by_try_then raised_by_step_diag raised_by_step_canvas raised_by_step_layer
        raised_by_step_renderer raised_by_step_reference_spaces raised_by_step_hit_test
        raised_by_step_scene)

lemma raised_by_launch_try: "raised_by env (launch_try env s)"
  unfolding launch_try_def
proof (rule raised_by_try_then [OF raised_by_step_camera])
  fix t
  show "raised_by env
          (let s1 = logDebug_text ''2) requesting XRSession'' t
           in case env_requestSession env of
                Inl e \<Rightarrow> Inl (e, s1)
              | Inr session \<Rightarrow>
                  setup_session env session
                    (logDebug_text ''-> XRSession started''
                       (s1\<lparr> xrSessionRef := Some session, arSessionActive := True \<rparr>)))"
  proof (cases "env_requestSession env")
    case (Inl e)
    then show ?thesis by (simp add: Let_def raised_by_def setup_errors_def)
  next
    case (Inr session)
    with raised_by_setup_session show ?thesis by (simp add: Let_def)
  qed
qed

lemma launch_try_error_serialisable:
  assumes "list_all serialisable (setup_errors env)" and "launch_try env s = Inl (err, sf)"
  shows "serialisable err"
proof -
  from raised_by_launch_try [of env s] assms(2)
  have "err = TypeError \<or> err \<in> set (setup_errors env)" by (simp add: raised_by_def)
  with assms(1) serialisable_TypeError show ?thesis by (auto simp: list_all_iff)
qed

text \<open>
  C9. Let the errors of the browser be values that \<^verbatim>\<open>JSON.stringify\<close> serialises, as the
  exceptions of the browser interfaces are. Then \<^verbatim>\<open>launchAR\<close> never rejects: whatever the
  browser answers, the promise is fulfilled. When a setup step fails (camera permission,
  session request, WebGL context, \<^verbatim>\<open>makeXRCompatible\<close>, layer, render state, renderer,
  reference spaces, hit-test source), the \<^verbatim>\<open>try\<close> block ends in an error, the \<^verbatim>\<open>catch\<close>
  block logs it, and the result of \<^verbatim>\<open>launchAR\<close> is the result of \<^verbatim>\<open>endARSession\<close> on the
  state reached. In that result no session, frame or hit-test source is held and the
  session is marked inactive; the canvas reference is \<^verbatim>\<open>null\<close> if the canvas held at the
  start, if any, was attached; and a session that had been opened has been ended.
\<close>

theorem setup_failure_is_caught_and_torn_down:
  assumes "list_all serialisable (setup_errors env)"
  shows "(\<exists>s'. launchAR env request s = Inr s')
   \<and> (isARSupported s \<and> setup_fails env \<longrightarrow>
       (\<exists>err sf t s'. launch_try env (launch_start request s) = Inl (err, sf)
          \<and> logDebug [Text ''launchAR error'', error_value err] sf = Inr t
          \<and> launchAR env request s = endARSession t
          \<and> launchAR env request s = Inr s'
          \<and> xrSessionRef s' = None \<and> frameRef s' = None
          \<and> holds_no_source (hitTestSourceRef s') \<and> \<not> arSessionActive s'
          \<and> (canvas_attached s \<longrightarrow> canvasRef s' = None)
          \<and> (env_getUserMedia env = None \<and> env_requestSession env = Inr h \<and> canvas_attached s
                \<longrightarrow> SessionEnd h \<in> set (calls s'))))"
proof (intro conjI impI)
  show "\<exists>s'. launchAR env request s = Inr s'"
  proof (cases "launch_try env (launch_start request s)")
    case (Inl p)
    obtain err sf where p: "p = (err, sf)" by (cases p)
    from launch_try_error_serialisable [OF assms] Inl p have "serialisable err" by simp
    from logDebug_error [OF this, of "''launchAR error''" sf]
    obtain t where t: "logDebug [Text ''launchAR error'', error_value err] sf = Inr t"
      by blast
    from endARSession_releases [of t] Inl p t
    show ?thesis by (auto simp: launchAR_def Let_def and_then_def)
  next
    case (Inr t)
    then show ?thesis by (simp add: launchAR_def Let_def)
  qed
next
  assume a: "isARSupported s \<and> setup_fails env"
  then have "isl (launch_try env (launch_start request s))" by (simp add: isl_launch_try)
  then obtain err sf where f: "launch_try env (launch_start request s) = Inl (err, sf)"
    by (cases "launch_try env (launch_start request s)") auto
  from launch_try_error_serialisable [OF assms f] have "serialisable err" .
  from logDebug_error [OF this, of "''launchAR error''" sf]
  obtain u where u: "logDebug [Text ''launchAR error'', error_value err] sf
                       = Inr (logDebug_text (join_space [''launchAR error'', u]) sf)"
    by blast
  let ?t = "logDebug_text (join_space [''launchAR error'', u]) sf"
  from f a u have l: "launchAR env request s = endARSession ?t"
    by (simp add: launchAR_def Let_def and_then_def)
  from endARSession_releases [of ?t]
  obtain s' where s': "endARSession ?t = Inr s'" "xrSessionRef s' = None" "frameRef s' = None"
    "holds_no_source (hitTestSourceRef s')" "canvas_attached ?t \<longrightarrow> canvasRef s' = None"
    "\<not> arSessionActive s'" by blast
  have c: "canvas_attached s \<longrightarrow> canvasRef s' = None"
  proof
    assume "canvas_attached s"
    then have "result_all canvas_attached (launch_try env (launch_start request s))"
      by (intro canvas_attached_launch_try) simp
    with f have "canvas_attached ?t" by (simp add: result_all_def)
    with s'(5) show "canvasRef s' = None" by simp
  qed
  have e: "env_getUserMedia env = None \<and> env_requestSession env = Inr h \<and> canvas_attached s
             \<longrightarrow> SessionEnd h \<in> set (calls s')"
  proof
    assume h: "env_getUserMedia env = None \<and> env_requestSession env = Inr h \<and> canvas_attached s"
    then have "result_all (launch_inv h) (launch_try env (launch_start request s))"
      by (intro session_held_launch_try) simp_all
    with f have "xrSessionRef ?t = Some h" by (simp add: result_all_def launch_inv_def)
    from endARSession_ends_session [OF this s'(1)] show "SessionEnd h \<in> set (calls s')" .
  qed
  from f u l s' c e
  show "\<exists>err sf t s'. launch_try env (launch_start request s) = Inl (err, sf)
          \<and> logDebug [Text ''launchAR error'', error_value err] sf = Inr t
          \<and> launchAR env request s = endARSession t
          \<and> launchAR env request s = Inr s'
          \<and> xrSessionRef s' = None \<and> frameRef s' = None
          \<and> holds_no_source (hitTestSourceRef s') \<and> \<not> arSessionActive s'
          \<and> (canvas_attached s \<longrightarrow> canvasRef s' = None)
          \<and> (env_getUserMedia env = None \<and> env_requestSession env = Inr h \<and> canvas_attached s
                \<longrightarrow> SessionEnd h \<in> set (calls s'))"
    by (intro exI [of _ err] exI [of _ sf] exI [of _ ?t] exI [of _ s']) simp
qed

text \<open>
  The browser grants the camera and the session, the canvas is added, and the request for
  a hit-test source is rejected with an exception that serialises to an empty object.
\<close>

theorem setup_failure_witness:
  "list_all serialisable (setup_errors hit_test_rejected)
   \<and> isARSupported initial_gallery \<and> setup_fails hit_test_rejected
   \<and> canvas_attached initial_gallery
   \<and> env_getUserMedia hit_test_rejected = None \<and> env_requestSession hit_test_rejected = Inr 1
   \<and> (\<exists>s'. launchAR hit_test_rejected ''{}'' initial_gallery = Inr s'
          \<and> xrSessionRef s' = None \<and> frameRef s' = None
          \<and> holds_no_source (hitTestSourceRef s') \<and> \<not> arSessionActive s'
          \<and> canvasRef s' = None \<and> SessionEnd 1 \<in> set (calls s'))"
proof -
  have g: "list_all serialisable (setup_errors hit_test_rejected)"
    by (simp add: hit_test_rejected_def setup_errors_def serialisable_def error_value_def)
  have h: "isARSupported initial_gallery" "setup_fails hit_test_rejected"
    "canvas_attached initial_gallery"
    "env_getUserMedia hit_test_rejected = None" "env_requestSession hit_test_rejected = Inr 1"
    by (simp_all add: initial_gallery_def hit_test_rejected_def setup_fails_def canvas_attached_def)
  from setup_failure_is_caught_and_torn_down [OF g, of "''{}''" initial_gallery 1] g h
  show ?thesis by blast
qed

text \<open>
  The assumption on the errors is needed. When the debug panel is mounted and the camera
  request is rejected with a value that \<^verbatim>\<open>JSON.stringify\<close> cannot serialise, \<^verbatim>\<open>logDebug\<close>
  throws in the \<^verbatim>\<open>catch\<close> block, before \<^verbatim>\<open>endARSession\<close> is called, and the promise of
  \<^verbatim>\<open>launchAR\<close> is rejected. No interface of the browser that the setup uses rejects with
  such a value.
\<close>

lemma unserialisable_error_escapes:
  "launchAR camera_rejected_opaque ''{}'' initial_gallery = Inl TypeError"
  by (simp add: launchAR_def launch_start_def launch_try_def step_camera_def try_then_def
      and_then_def logDebug_def logDebug_text_def error_value_def Let_def
      camera_rejected_opaque_def initial_gallery_def)

text \<open>The page keeps the canvas it holds attached: a launch leaves it so.\<close>

lemma canvas_attached_launchAR:
  assumes "canvas_attached s" and "launchAR env request s = Inr s'"
  shows "canvas_attached s'"
proof (cases "isARSupported s")
  case False
  with assms show ?thesis by (auto simp: launchAR_def Let_def)
next
  case True
  show ?thesis
  proof (cases "launch_try env (launch_start request s)")
    case (Inr t)
    from canvas_attached_launch_try [of "launch_start request s" env] assms(1) Inr
    have "canvas_attached t" by (simp add: result_all_def)
    with assms(2) True Inr show ?thesis by (simp add: launchAR_def Let_def)
  next
    case (Inl p)
    obtain err sf where p: "p = (err, sf)" by (cases p)
    from assms(2) True Inl p
    obtain t where t: "logDebug [Text ''launchAR error'', error_value err] sf = Inr t"
      and e: "endARSession t = Inr s'"
      by (cases "logDebug [Text ''launchAR error'', error_value err] sf")
         (auto simp: launchAR_def Let_def and_then_def)
    from canvas_attached_launch_try [of "launch_start request s" env] assms(1) Inl p
    have "canvas_attached sf" by (simp add: result_all_def)
    with t have "canvas_attached t"
      by (auto simp: logDebug_def Let_def canvas_attached_def split: option.splits)
    with canvas_attached_endARSession [OF _ e] show ?thesis by simp
  qed
qed

section \<open>Placement of the plane\<close>

lemma logDebug_text_session [simp]:
  "placed (logDebug_text l st) = placed st"
  "pictureGroup_position (logDebug_text l st) = pictureGroup_position st"
  "pictureGroup_quaternion (logDebug_text l st) = pictureGroup_quaternion st"
  "camera_position (logDebug_text l st) = camera_position st"
  "plane_h (logDebug_text l st) = plane_h st"
  "uncaught (logDebug_text l st) = uncaught st"
  "console (logDebug_text l st) = console st @ [l]"
  by (simp_all add: logDebug_text_def Let_def split: option.splits)

lemma placement_lines_simps [simp]:
  "placement_lines [] = 0"
  "placement_lines (l # ls)
     = (if l = ''-> placing at'' \<or> l = ''fallback placement'' then 1 else 0) + placement_lines ls"
  "placement_lines (xs @ ys) = placement_lines xs + placement_lines ys"
  by (simp_all add: placement_lines_def)

lemma same_placement_refl [simp]: "same_placement a a"
  by (simp add: same_placement_def)

lemma same_placement_trans: "same_placement a b \<Longrightarrow> same_placement b c \<Longrightarrow> same_placement a c"
  by (simp add: same_placement_def)

lemma handle_when_placed: "placed st \<Longrightarrow> same_placement (handle e st) st"
  by (cases e) (simp_all add: on_select_def on_fallback_def Let_def same_placement_def)

lemma placed_handle: "placed st \<Longrightarrow> placed (handle e st)"
  using handle_when_placed [of st e] by (simp add: same_placement_def)

lemma run_when_placed: "placed st \<Longrightarrow> same_placement (run es st) st"
proof (induction es arbitrary: st)
  case Nil
  then show ?case by simp
next
  case (Cons e es)
  from Cons.IH [OF placed_handle [OF Cons.prems]] handle_when_placed [OF Cons.prems]
  show ?case by (auto intro: same_placement_trans)
qed

lemma select_without_hit: "same_placement (handle (Select []) st) st"
  by (simp add: on_select_def Let_def same_placement_def)

lemma run_without_hit:
  "\<forall>e \<in> set pre. e = Select [] \<Longrightarrow> same_placement (run pre st) st"
proof (induction pre arbitrary: st)
  case Nil
  then show ?case by simp
next
  case (Cons e pre)
  then have e: "e = Select []" and r: "\<forall>e \<in> set pre. e = Select []" by simp_all
  from Cons.IH [OF r, of "handle e st"] select_without_hit [of st] e
  show ?case by (auto intro: same_placement_trans)
qed

lemma run_append: "run (xs @ ys) st = run ys (run xs st)"
  by (induction xs arbitrary: st) simp_all

lemma select_hit_places:
  assumes "\<not> placed st"
  shows "pictureGroup_position (handle (Select (Some t # rest)) st) = xr_position t"
    and "pictureGroup_quaternion (handle (Select (Some t # rest)) st) = Copied (xr_orientation t)"
    and "placed (handle (Select (Some t # rest)) st)"
    and "placement_lines (console (handle (Select (Some t # rest)) st))
           = placement_lines (console st) + 1"
  using assms by (simp_all add: on_select_def Let_def)

lemma fallback_places:
  assumes "\<not> placed st"
  shows "pictureGroup_position (handle FallbackTimeout st) = fallback_position st"
    and "pictureGroup_quaternion (handle FallbackTimeout st)
           = LookAt (fallback_position st) (camera_position st)"
    and "placed (handle FallbackTimeout st)"
    and "placement_lines (console (handle FallbackTimeout st)) = placement_lines (console st) + 1"
  using assms by (simp_all add: on_fallback_def Let_def fallback_position_def)

text \<open>
  What the listener does achieve. In a session that has not placed the plane, let select
  gestures without a hit-test result be followed by a select gesture whose first result
  has a pose, before the timer fires. Then, whatever events follow (the timer, further
  gestures with results), the plane has the position and orientation of that pose after
  each of them, and exactly one placement has been made.
\<close>

lemma first_hit_places_plane_for_good:
  assumes "\<not> placed st" and "\<forall>e \<in> set pre. e = Select []"
  shows "pictureGroup_position (run (pre @ Select (Some t # rest) # post) st) = xr_position t
       \<and> pictureGroup_quaternion (run (pre @ Select (Some t # rest) # post) st)
           = Copied (xr_orientation t)
       \<and> placed (run (pre @ Select (Some t # rest) # post) st)
       \<and> placement_lines (console (run (pre @ Select (Some t # rest) # post) st))
           = placement_lines (console st) + 1"
proof -
  let ?s1 = "run pre st"
  let ?s2 = "handle (Select (Some t # rest)) ?s1"
  have r: "run (pre @ Select (Some t # rest) # post) st = run post ?s2"
    by (simp add: run_append)
  from run_without_hit [OF assms(2), of st]
  have a: "same_placement ?s1 st" .
  with assms(1) have n: "\<not> placed ?s1" by (simp add: same_placement_def)
  note H = select_hit_places [OF n, of t rest]
  from run_when_placed [OF H(3), of post]
  have b: "same_placement (run post ?s2) ?s2" .
  from a b H show ?thesis
    unfolding r by (simp add: same_placement_def)
qed

text \<open>A miss, a hit on the wall, then the timer and a hit on the floor.\<close>

lemma first_hit_example:
  "\<not> placed (new_session print_8x10)
   \<and> pictureGroup_position
        (run ([Select []] @ Select [Some wall_hit] # [FallbackTimeout, Select [Some floor_hit]])
           (new_session print_8x10))
       = \<lparr> vec_x = Fin 1, vec_y = Fin 0, vec_z = Fin (- 1.5) \<rparr>
   \<and> placement_lines (console
        (run ([Select []] @ Select [Some wall_hit] # [FallbackTimeout, Select [Some floor_hit]])
           (new_session print_8x10))) = 1"
proof -
  have h: "\<not> placed (new_session print_8x10)" "\<forall>e \<in> set [Select []]. e = Select []"
    by (simp_all add: new_session_def)
  from first_hit_places_plane_for_good
         [OF h, of wall_hit "[]" "[FallbackTimeout, Select [Some floor_hit]]"] h
  show ?thesis by (simp add: wall_hit_def new_session_def)
qed

text \<open>
  C5. In a session that has not placed the plane, let only select gestures without a
  hit-test result precede the firing of the timer. Then, whatever events follow, the
  plane is at the fallback pose and exactly one placement has been made. The fallback
  position is \<open>(0, eyeY - h / 2, -2)\<close>, where \<open>eyeY\<close> is the height of the camera, and the
  plane is turned towards the camera: seen from the camera as the session creates it, at
  \<open>(0, 1.6, 3)\<close>, it is straight ahead, with the upper edge of the print at eye height.
\<close>

theorem fallback_places_plane_exactly_once:
  assumes "\<not> placed st" and "\<forall>e \<in> set pre. e = Select []"
  shows "pictureGroup_position (run (pre @ FallbackTimeout # post) st) = fallback_position st
       \<and> pictureGroup_quaternion (run (pre @ FallbackTimeout # post) st)
           = LookAt (fallback_position st) (camera_position st)
       \<and> placed (run (pre @ FallbackTimeout # post) st)
       \<and> placement_lines (console (run (pre @ FallbackTimeout # post) st))
           = placement_lines (console st) + 1"
proof -
  let ?s1 = "run pre st"
  let ?s2 = "handle FallbackTimeout ?s1"
  have r: "run (pre @ FallbackTimeout # post) st = run post ?s2"
    by (simp add: run_append)
  from run_without_hit [OF assms(2), of st]
  have a: "same_placement ?s1 st" .
  with assms(1) have n: "\<not> placed ?s1" by (simp add: same_placement_def)
  from a have f: "fallback_position ?s1 = fallback_position st"
    and c: "camera_position ?s1 = camera_position st"
    by (simp_all add: same_placement_def fallback_position_def)
  note H = fallback_places [OF n]
  from run_when_placed [OF H(3), of post]
  have b: "same_placement (run post ?s2) ?s2" .
  from a b H f c show ?thesis
    unfolding r by (simp add: same_placement_def)
qed

text \<open>Two misses, the timer, then a hit and a second timer event: the 8 by 10 inch print is
  at \<open>(0, 1.4984, -2)\<close>.\<close>

theorem fallback_witness:
  "\<not> placed (new_session print_8x10)
   \<and> pictureGroup_position
        (run ([Select [], Select []] @ FallbackTimeout # [Select [Some wall_hit], FallbackTimeout])
           (new_session print_8x10))
       = \<lparr> vec_x = Fin 0, vec_y = Fin 1.4984, vec_z = Fin (- 2) \<rparr>
   \<and> placement_lines (console
        (run ([Select [], Select []] @ FallbackTimeout # [Select [Some wall_hit], FallbackTimeout])
           (new_session print_8x10))) = 1"
proof -
  have h: "\<not> placed (new_session print_8x10)" "\<forall>e \<in> set [Select [], Select []]. e = Select []"
    by (simp_all add: new_session_def)
  from fallback_places_plane_exactly_once
         [OF h, of "[Select [Some wall_hit], FallbackTimeout]"] h
  show ?thesis by (simp add: fallback_position_def new_session_def print_8x10_def)
qed

text \<open>
  A result without a pose: the listener has set \<^verbatim>\<open>placed\<close> before it reads the pose, so
  the flag is set, the plane stays where it was and the \<^verbatim>\<open>TypeError\<close> is reported.
\<close>

lemma select_hit_without_pose:
  assumes "\<not> placed st"
  shows "placed (handle (Select (None # rest)) st)"
    and "pictureGroup_position (handle (Select (None # rest)) st) = pictureGroup_position st"
    and "uncaught (handle (Select (None # rest)) st) = uncaught st @ [TypeError]"
  using assms by (simp_all add: on_select_def Let_def)

text \<open>
  C4 fails on the code. Lines 311 to 313 set \<^verbatim>\<open>placed = true\<close> before
  \<^verbatim>\<open>getPose(localRef)\<close> is read, and assert with \<^verbatim>\<open>!\<close> that it is not \<^verbatim>\<open>null\<close>. A first gesture
  whose result has no pose is no placement, yet it uses up the guard: the next gesture,
  with a result that has a pose, before the timer fires, does not place the plane, and
  neither does the timer. After the three events the plane is where the session created
  it, no placement has been made, and the one exception is the \<^verbatim>\<open>TypeError\<close> of the first
  gesture.
\<close>

theorem unposed_hit_blocks_every_placement:
  "placed (run [Select [None], Select [Some wall_hit], FallbackTimeout] (new_session print_8x10))
   \<and> pictureGroup_position
        (run [Select [None], Select [Some wall_hit], FallbackTimeout] (new_session print_8x10))
       = \<lparr> vec_x = Fin 0, vec_y = Fin 0, vec_z = Fin 0 \<rparr>
   \<and> pictureGroup_quaternion
        (run [Select [None], Select [Some wall_hit], FallbackTimeout] (new_session print_8x10))
       = Copied \<lparr> quat_x = Fin 0, quat_y = Fin 0, quat_z = Fin 0, quat_w = Fin 1 \<rparr>
   \<and> placement_lines (console
        (run [Select [None], Select [Some wall_hit], FallbackTimeout] (new_session print_8x10)))
       = 0
   \<and> uncaught
        (run [Select [None], Select [Some wall_hit], FallbackTimeout] (new_session print_8x10))
       = [TypeError]"
  by (simp add: on_select_def on_fallback_def Let_def new_session_def)

end
